theory Spec2Isabelle
  imports Complex_Main "HOL-Library.Multiset" "HOL-Library.Monad_Syntax" "HOL-Library.Sublist"
begin

section \<open>The recommendation engine of Arina-SharedPackage\<close>

text \<open>
  The engine (\<^verbatim>\<open>generateRecommendations\<close> and its helpers) is TypeScript that runs as
  JavaScript. It reads the untyped \<^verbatim>\<open>data\<close> payload of stored analysis results with
  \<^verbatim>\<open>data as any\<close>, so what it does is decided by the JavaScript semantics of property
  reads, truthiness, coercion and method calls. The embedding therefore starts with the
  fragment of JavaScript the engine uses, and then follows the source function by function.

  What the embedding abstracts:
  \<^item> Numbers. A JavaScript number is a binary64 float. Here a finite number is an exact
    \<open>real\<close>: rounding, overflow and the sign of zero are not modelled. \<open>NaN\<close> and the two
    infinities are values, because division by zero and failed conversions produce them.
  \<^item> Strings are lists of 8-bit characters (the Latin-1 part of UTF-16).
  \<^item> The built-ins of the runtime that are not code of the repository are parameters,
    collected in the record \<open>runtime\<close>: the wall clock, \<^verbatim>\<open>Date.prototype.toDateString\<close>,
    and the conversions between numbers and strings.
  \<^item> A \<^verbatim>\<open>TypeError\<close> is the only exception the engine can raise; a computation that can
    raise returns an \<open>option\<close>, and \<open>None\<close> is the raised \<^verbatim>\<open>TypeError\<close>.
  \<^item> A payload is a value parsed from JSON. Its objects are taken to have no property of
    their own named \<^verbatim>\<open>toString\<close>: such a property hides \<^verbatim>\<open>Object.prototype.toString\<close>, and
    converting the object to a string or to a number would then raise a \<^verbatim>\<open>TypeError\<close>,
    which the conversions \<open>toStr\<close> and \<open>toNum\<close> below do not model.
\<close>

subsection \<open>JavaScript numbers\<close>

datatype jsnum = Fin real | PosInf | NegInf | NaN

fun num_neg :: "jsnum \<Rightarrow> jsnum" where
  "num_neg (Fin a) = Fin (- a)"
| "num_neg PosInf = NegInf"
| "num_neg NegInf = PosInf"
| "num_neg NaN = NaN"

fun num_add :: "jsnum \<Rightarrow> jsnum \<Rightarrow> jsnum" where
  "num_add NaN b = NaN"
| "num_add a NaN = NaN"
| "num_add (Fin a) (Fin b) = Fin (a + b)"
| "num_add PosInf NegInf = NaN"
| "num_add NegInf PosInf = NaN"
| "num_add PosInf b = PosInf"
| "num_add NegInf b = NegInf"
| "num_add (Fin a) b = b"

definition num_sub :: "jsnum \<Rightarrow> jsnum \<Rightarrow> jsnum" where
  "num_sub a b = num_add a (num_neg b)"

fun num_sgn :: "jsnum \<Rightarrow> int" where
  "num_sgn (Fin a) = (if a < 0 then - 1 else if a = 0 then 0 else 1)"
| "num_sgn PosInf = 1"
| "num_sgn NegInf = - 1"
| "num_sgn NaN = 0"

fun num_mul :: "jsnum \<Rightarrow> jsnum \<Rightarrow> jsnum" where
  "num_mul NaN b = NaN"
| "num_mul a NaN = NaN"
| "num_mul (Fin a) (Fin b) = Fin (a * b)"
| "num_mul a b =
     (if num_sgn a * num_sgn b = 0 then NaN
      else if 0 < num_sgn a * num_sgn b then PosInf else NegInf)"

fun num_div :: "jsnum \<Rightarrow> jsnum \<Rightarrow> jsnum" where
  "num_div NaN b = NaN"
| "num_div a NaN = NaN"
| "num_div (Fin a) (Fin b) =
     (if b = 0 then (if a = 0 then NaN else if 0 < a then PosInf else NegInf)
      else Fin (a / b))"
| "num_div (Fin a) b = Fin 0"
| "num_div a (Fin b) = (if 0 \<le> b then a else num_neg a)"
| "num_div a b = NaN"

fun num_lt :: "jsnum \<Rightarrow> jsnum \<Rightarrow> bool" where
  "num_lt NaN b = False"
| "num_lt a NaN = False"
| "num_lt (Fin a) (Fin b) = (a < b)"
| "num_lt a NegInf = False"
| "num_lt PosInf b = False"
| "num_lt a b = True"

definition num_gt :: "jsnum \<Rightarrow> jsnum \<Rightarrow> bool" where
  "num_gt a b = num_lt b a"

fun num_abs :: "jsnum \<Rightarrow> jsnum" where
  "num_abs (Fin a) = Fin \<bar>a\<bar>"
| "num_abs PosInf = PosInf"
| "num_abs NegInf = PosInf"
| "num_abs NaN = NaN"

subsection \<open>\<^verbatim>\<open>Array.prototype.sort\<close> with a comparator\<close>

text \<open>
  \<^verbatim>\<open>sort\<close> reads only the sign of what the comparator returns, and takes \<^verbatim>\<open>NaN\<close> for
  \<open>0\<close>. For a consistent comparator the language fixes the result: the sort is stable, so
  the result is the one the insertion sort below computes. For an inconsistent comparator
  the order is left to the implementation (it is still a permutation); the model then
  gives the order of this insertion sort.
\<close>

fun insertBy :: "('a \<Rightarrow> 'a \<Rightarrow> jsnum) \<Rightarrow> 'a \<Rightarrow> 'a list \<Rightarrow> 'a list" where
  "insertBy cmp x [] = [x]"
| "insertBy cmp x (y # ys) =
     (if num_gt (cmp x y) (Fin 0) then y # insertBy cmp x ys else x # y # ys)"

definition js_sort :: "('a \<Rightarrow> 'a \<Rightarrow> jsnum) \<Rightarrow> 'a list \<Rightarrow> 'a list" where
  "js_sort cmp xs = foldr (insertBy cmp) xs []"

subsection \<open>Timestamps\<close>

text \<open>
  A \<^verbatim>\<open>created_at\<close> column is \<^verbatim>\<open>Date | null\<close>. The code tests it for truthiness and then
  takes \<^verbatim>\<open>new Date(created_at).getTime()\<close>. \<open>None\<close> is a falsy value (\<^verbatim>\<open>null\<close>, or a missing
  field); \<open>Some (Time t)\<close> is a date whose time value is \<open>t\<close> milliseconds; \<open>Some InvalidDate\<close>
  is a truthy value that does not denote a date (an invalid \<^verbatim>\<open>Date\<close>, an unparseable
  string), for which \<^verbatim>\<open>getTime()\<close> is \<^verbatim>\<open>NaN\<close>.
\<close>

datatype timeval = Time int | InvalidDate

fun getTime :: "timeval \<Rightarrow> jsnum" where
  "getTime (Time t) = Fin (real_of_int t)"
| "getTime InvalidDate = NaN"

definition dateOrZero :: "timeval option \<Rightarrow> jsnum" where
  \<comment> \<open>\<^verbatim>\<open>x.created_at ? new Date(x.created_at).getTime() : 0\<close>\<close>
  "dateOrZero c = (case c of None \<Rightarrow> Fin 0 | Some tv \<Rightarrow> getTime tv)"

definition recencyCmp :: "timeval option \<Rightarrow> timeval option \<Rightarrow> jsnum" where
  \<comment> \<open>the comparator \<^verbatim>\<open>(a, b) => dateB - dateA\<close>, on the two \<^verbatim>\<open>created_at\<close> values\<close>
  "recencyCmp ca cb = num_sub (dateOrZero cb) (dateOrZero ca)"

subsection \<open>Payload values\<close>

datatype jsval =
    JUndefined
  | JNull
  | JBool bool
  | JNum jsnum
  | JStr string
  | JArr "jsval list"
  | JObj "(string \<times> jsval) list"

text \<open>The rows of the tables \<^verbatim>\<open>analysis_results\<close> and \<^verbatim>\<open>chat_messages\<close> (\<^verbatim>\<open>schema.ts\<close>).\<close>

record AnalysisResult =
  ar_id :: string
  ar_user_id :: string
  ar_type :: string
  ar_data :: jsval
  ar_created_at :: "timeval option"
  ar_updated_at :: "timeval option"

record ChatMessage =
  cm_id :: string
  cm_conversation_id :: string
  cm_role :: string
  cm_content :: string
  cm_created_at :: "timeval option"

subsection \<open>\<^verbatim>\<open>sortByRecency\<close>\<close>

definition sortByRecency :: "AnalysisResult list \<Rightarrow> AnalysisResult list" where
  "sortByRecency results =
     js_sort (\<lambda>a b. recencyCmp (ar_created_at a) (ar_created_at b)) results"

text \<open>
  The same function on a store of arrays, to say what it does to its argument: an array
  is an address into the store, \<^verbatim>\<open>[...results]\<close> allocates a copy, and \<^verbatim>\<open>sort\<close> sorts the
  array at an address in place and returns that address.
\<close>

type_synonym 'a arrays = "'a list list"

definition spread :: "'a arrays \<Rightarrow> nat \<Rightarrow> nat \<times> 'a arrays" where
  "spread h r = (length h, h @ [h ! r])"

definition sort_in_place :: "('a \<Rightarrow> 'a \<Rightarrow> jsnum) \<Rightarrow> 'a arrays \<Rightarrow> nat \<Rightarrow> nat \<times> 'a arrays" where
  "sort_in_place cmp h r = (r, h[r := js_sort cmp (h ! r)])"

definition sortByRecency_store :: "AnalysisResult arrays \<Rightarrow> nat \<Rightarrow> nat \<times> AnalysisResult arrays" where
  "sortByRecency_store h results =
     (case spread h results of
        (c, h1) \<Rightarrow> sort_in_place (\<lambda>a b. recencyCmp (ar_created_at a) (ar_created_at b)) h1 c)"

text \<open>
  The timestamp the specification sorts by: the time value, and the epoch for a record
  whose timestamp is missing or unparseable.
\<close>

definition epochTime :: "timeval option \<Rightarrow> int" where
  "epochTime c = (case c of Some (Time t) \<Rightarrow> t | _ \<Rightarrow> 0)"

definition newestFirst :: "AnalysisResult list \<Rightarrow> bool" where
  "newestFirst xs =
     sorted_wrt (\<lambda>a b. epochTime (ar_created_at b) \<le> epochTime (ar_created_at a)) xs"

subsection \<open>The runtime\<close>

text \<open>
  The built-ins the engine calls. \<open>clock rt k\<close> is what the wall clock shows at the
  \<open>k\<close>-th reading of a run (\<^verbatim>\<open>Date.now()\<close> and \<^verbatim>\<open>new Date()\<close> each read it once); nothing
  is assumed about it, not even that it grows. \<open>toDateString\<close> is the local calendar day
  of a time value, \<open>numToString\<close> is \<^verbatim>\<open>Number::toString\<close>, \<open>toFixed\<close> is
  \<^verbatim>\<open>Number.prototype.toFixed\<close> and \<open>stringToNumber\<close> is the conversion \<^verbatim>\<open>StringToNumber\<close>.
\<close>

record runtime =
  clock :: "nat \<Rightarrow> int"
  toDateString :: "int \<Rightarrow> string"
  numToString :: "jsnum \<Rightarrow> string"
  toFixed :: "jsnum \<Rightarrow> nat \<Rightarrow> string"
  stringToNumber :: "string \<Rightarrow> jsnum"

subsection \<open>The fragment of JavaScript the engine uses\<close>

fun truthy :: "jsval \<Rightarrow> bool" where
  "truthy JUndefined = False"
| "truthy JNull = False"
| "truthy (JBool b) = b"
| "truthy (JNum n) = (n \<noteq> NaN \<and> n \<noteq> Fin 0)"
| "truthy (JStr s) = (s \<noteq> [])"
| "truthy (JArr xs) = True"
| "truthy (JObj kvs) = True"

text \<open>
  A property read \<^verbatim>\<open>v.p\<close>. It raises on \<^verbatim>\<open>undefined\<close> and \<^verbatim>\<open>null\<close>. The engine reads only
  names that no prototype defines (\<^verbatim>\<open>length\<close> is read only after \<^verbatim>\<open>Array.isArray\<close>, and is
  \<open>length\<close> here), so on a primitive or an array the read is \<^verbatim>\<open>undefined\<close>.
\<close>

fun getp :: "jsval \<Rightarrow> string \<Rightarrow> jsval option" where
  "getp JUndefined p = None"
| "getp JNull p = None"
| "getp (JObj kvs) p = Some (case map_of kvs p of None \<Rightarrow> JUndefined | Some x \<Rightarrow> x)"
| "getp v p = Some JUndefined"

fun isArray :: "jsval \<Rightarrow> bool" where
  "isArray (JArr xs) = True"
| "isArray v = False"

fun elems :: "jsval \<Rightarrow> jsval list" where
  "elems (JArr xs) = xs"
| "elems v = []"

fun joinWith :: "string \<Rightarrow> string list \<Rightarrow> string" where
  "joinWith sep [] = []"
| "joinWith sep [x] = x"
| "joinWith sep (x # y # ys) = x @ sep @ joinWith sep (y # ys)"

fun toStr :: "runtime \<Rightarrow> jsval \<Rightarrow> string" where
  "toStr rt JUndefined = ''undefined''"
| "toStr rt JNull = ''null''"
| "toStr rt (JBool b) = (if b then ''true'' else ''false'')"
| "toStr rt (JNum n) = numToString rt n"
| "toStr rt (JStr s) = s"
| "toStr rt (JArr xs) =
     joinWith '','' (map (\<lambda>x. if x = JUndefined \<or> x = JNull then [] else toStr rt x) xs)"
| "toStr rt (JObj kvs) = ''[object Object]''"

definition joinVals :: "runtime \<Rightarrow> string \<Rightarrow> jsval list \<Rightarrow> string" where
  \<comment> \<open>\<^verbatim>\<open>Array.prototype.join\<close>: \<^verbatim>\<open>undefined\<close> and \<^verbatim>\<open>null\<close> elements give the empty string\<close>
  "joinVals rt sep xs =
     joinWith sep (map (\<lambda>x. if x = JUndefined \<or> x = JNull then [] else toStr rt x) xs)"

fun toNum :: "runtime \<Rightarrow> jsval \<Rightarrow> jsnum" where
  "toNum rt JUndefined = NaN"
| "toNum rt JNull = Fin 0"
| "toNum rt (JBool b) = Fin (if b then 1 else 0)"
| "toNum rt (JNum n) = n"
| "toNum rt (JStr s) = stringToNumber rt s"
| "toNum rt v = stringToNumber rt (toStr rt v)"

fun concatenates :: "jsval \<Rightarrow> bool" where
  \<comment> \<open>the operands that turn \<^verbatim>\<open>+\<close> into a concatenation: strings, and arrays and objects, whose primitive value is a string\<close>
  "concatenates (JStr s) = True"
| "concatenates (JArr xs) = True"
| "concatenates (JObj kvs) = True"
| "concatenates v = False"

definition js_add :: "runtime \<Rightarrow> jsval \<Rightarrow> jsval \<Rightarrow> jsval" where
  \<comment> \<open>the operator \<^verbatim>\<open>+\<close>\<close>
  "js_add rt a b =
     (if concatenates a \<or> concatenates b
      then JStr (toStr rt a @ toStr rt b)
      else JNum (num_add (toNum rt a) (toNum rt b)))"

fun callToFixed :: "runtime \<Rightarrow> jsval \<Rightarrow> nat \<Rightarrow> string option" where
  \<comment> \<open>the call \<^verbatim>\<open>v.toFixed(d)\<close>: only a number has the method\<close>
  "callToFixed rt (JNum n) d = Some (toFixed rt n d)"
| "callToFixed rt v d = None"

text \<open>
  \<^verbatim>\<open>map\<close>, \<^verbatim>\<open>filter\<close>, \<^verbatim>\<open>reduce\<close>, \<^verbatim>\<open>forEach\<close> and \<^verbatim>\<open>sort\<close> with a callback that can raise: the
  first raise ends the loop.
\<close>

fun mapE :: "('a \<Rightarrow> 'b option) \<Rightarrow> 'a list \<Rightarrow> 'b list option" where
  "mapE f [] = Some []"
| "mapE f (x # xs) = do { y \<leftarrow> f x; ys \<leftarrow> mapE f xs; Some (y # ys) }"

fun filterE :: "('a \<Rightarrow> bool option) \<Rightarrow> 'a list \<Rightarrow> 'a list option" where
  "filterE f [] = Some []"
| "filterE f (x # xs) = do { b \<leftarrow> f x; ys \<leftarrow> filterE f xs; Some (if b then x # ys else ys) }"

fun reduceE :: "('b \<Rightarrow> 'a \<Rightarrow> 'b option) \<Rightarrow> 'a list \<Rightarrow> 'b \<Rightarrow> 'b option" where
  "reduceE f [] acc = Some acc"
| "reduceE f (x # xs) acc = do { acc' \<leftarrow> f acc x; reduceE f xs acc' }"

fun forEachE :: "('a \<Rightarrow> 's \<Rightarrow> 's option) \<Rightarrow> 'a list \<Rightarrow> 's \<Rightarrow> 's option" where
  "forEachE f [] st = Some st"
| "forEachE f (x # xs) st = do { st' \<leftarrow> f x st; forEachE f xs st' }"

fun insertByE :: "('a \<Rightarrow> 'a \<Rightarrow> jsnum option) \<Rightarrow> 'a \<Rightarrow> 'a list \<Rightarrow> 'a list option" where
  "insertByE cmp x [] = Some [x]"
| "insertByE cmp x (y # ys) = do {
     c \<leftarrow> cmp x y;
     if num_gt c (Fin 0) then do { zs \<leftarrow> insertByE cmp x ys; Some (y # zs) }
     else Some (x # y # ys)
   }"

fun js_sortE :: "('a \<Rightarrow> 'a \<Rightarrow> jsnum option) \<Rightarrow> 'a list \<Rightarrow> 'a list option" where
  "js_sortE cmp [] = Some []"
| "js_sortE cmp (x # xs) = do { ys \<leftarrow> js_sortE cmp xs; insertByE cmp x ys }"

subsection \<open>Strings\<close>

definition toLowerChar :: "char \<Rightarrow> char" where
  "toLowerChar c =
     (let n = (of_char c :: nat)
      in if (65 \<le> n \<and> n \<le> 90) \<or> (192 \<le> n \<and> n \<le> 222 \<and> n \<noteq> 215) then char_of (n + 32) else c)"

definition toLowerCase :: "string \<Rightarrow> string" where
  "toLowerCase s = map toLowerChar s"

definition toUpperChar :: "char \<Rightarrow> char" where
  \<comment> \<open>used on the first letter of a season name only\<close>
  "toUpperChar c =
     (let n = (of_char c :: nat) in if 97 \<le> n \<and> n \<le> 122 then char_of (n - 32) else c)"

fun str_includes :: "string \<Rightarrow> string \<Rightarrow> bool" where
  \<comment> \<open>\<^verbatim>\<open>s.includes(kw)\<close>\<close>
  "str_includes [] kw = (kw = [])"
| "str_includes (c # cs) kw = (prefix kw (c # cs) \<or> str_includes cs kw)"

definition isSep :: "char \<Rightarrow> bool" where
  "isSep c = (c = CHR ''.'' \<or> c = CHR ''!'' \<or> c = CHR ''?'')"

fun splitSentences :: "string \<Rightarrow> string list" where
  \<comment> \<open>\<^verbatim>\<open>split(/[.!?]+/)\<close>: the pieces between the maximal runs of separators\<close>
  "splitSentences [] = [[]]"
| "splitSentences [c] = (if isSep c then [[], []] else [[c]])"
| "splitSentences (c # d # cs) =
     (if isSep c then (if isSep d then splitSentences (d # cs) else [] # splitSentences (d # cs))
      else (case splitSentences (d # cs) of [] \<Rightarrow> [[c]] | p # ps \<Rightarrow> (c # p) # ps))"

definition isWhiteSpace :: "char \<Rightarrow> bool" where
  "isWhiteSpace c = (let n = (of_char c :: nat) in (9 \<le> n \<and> n \<le> 13) \<or> n = 32 \<or> n = 160)"

definition trim :: "string \<Rightarrow> string" where
  "trim s = rev (dropWhile isWhiteSpace (rev (dropWhile isWhiteSpace s)))"

subsection \<open>Recommendation items and sets\<close>

datatype recType = Crop | Business | Resource | Market

datatype recSource = Analysis | Chat | Pattern | Seasonal

record RecommendationItem =
  ri_id :: string
  ri_type :: recType
  ri_title :: string
  ri_description :: string
  ri_confidence :: real
  ri_data :: jsval
  ri_source :: recSource
  ri_createdAt :: int

record RecommendationSet =
  rs_id :: string
  rs_userId :: string
  rs_recommendations :: "RecommendationItem list"
  rs_summary :: string
  rs_createdAt :: int

datatype season = Spring | Summer | Fall | Winter

fun seasonName :: "season \<Rightarrow> string" where
  "seasonName Spring = ''spring''"
| "seasonName Summer = ''summer''"
| "seasonName Fall = ''fall''"
| "seasonName Winter = ''winter''"

record RecommendationInput =
  userId :: string
  analysisResults :: "AnalysisResult list"
  chatHistory :: "ChatMessage list"
  currentSeason :: "season option"

text \<open>
  An extractor fills its local array \<^verbatim>\<open>recommendations\<close> and reads the clock for every
  item. Its state is that array and the number of clock readings made so far in the run.
\<close>

record extraction =
  recommendations :: "RecommendationItem list"
  reads :: nat

definition push :: "runtime \<Rightarrow> (int \<Rightarrow> RecommendationItem) \<Rightarrow> extraction \<Rightarrow> extraction" where
  \<comment> \<open>\<^verbatim>\<open>recommendations.push({..., createdAt: new Date()})\<close>; the item is given as a function of the clock reading\<close>
  "push rt item st =
     st\<lparr>recommendations := recommendations st @ [item (clock rt (reads st))], reads := Suc (reads st)\<rparr>"

subsection \<open>\<^verbatim>\<open>extractBusinessRecommendations\<close>\<close>

definition recentBusinessResults :: "AnalysisResult list \<Rightarrow> AnalysisResult list" where
  "recentBusinessResults results =
     take 3 (sortByRecency (filter (\<lambda>r. ar_type r = ''business_feasibility'') results))"

definition profitRule :: "runtime \<Rightarrow> AnalysisResult \<Rightarrow> extraction \<Rightarrow> extraction option" where
  "profitRule rt result st = do {
     profitMargin \<leftarrow> getp (ar_data result) ''profitMargin'';
     if truthy profitMargin \<and> num_gt (toNum rt profitMargin) (Fin 0.25) then do {
       businessName \<leftarrow> getp (ar_data result) ''businessName'';
       roi \<leftarrow> getp (ar_data result) ''roi'';
       Some (push rt (\<lambda>now. \<lparr>
         ri_id = ''biz-profit-'' @ ar_id result,
         ri_type = Business,
         ri_title = ''Profitable Business Model'',
         ri_description = ''Your '' @ toStr rt businessName @ '' shows a strong profit margin of ''
           @ toFixed rt (num_mul (toNum rt profitMargin) (Fin 100)) 1
           @ ''%. Consider scaling operations while maintaining current cost structure.'',
         ri_confidence = 0.8,
         ri_data = JObj [(''profitMargin'', profitMargin), (''roi'', roi), (''businessName'', businessName)],
         ri_source = Analysis,
         ri_createdAt = now\<rparr>) st)
     } else Some st
   }"

definition roiRule :: "runtime \<Rightarrow> AnalysisResult \<Rightarrow> extraction \<Rightarrow> extraction option" where
  "roiRule rt result st = do {
     roi \<leftarrow> getp (ar_data result) ''roi'';
     if truthy roi \<and> num_gt (toNum rt roi) (Fin 0.15) then do {
       businessName \<leftarrow> getp (ar_data result) ''businessName'';
       paybackPeriod \<leftarrow> getp (ar_data result) ''paybackPeriod'';
       Some (push rt (\<lambda>now. \<lparr>
         ri_id = ''biz-roi-'' @ ar_id result,
         ri_type = Business,
         ri_title = ''Strong Return on Investment'',
         ri_description = ''Your investment in '' @ toStr rt businessName @ '' shows a ''
           @ toFixed rt (num_mul (toNum rt roi) (Fin 100)) 1
           @ ''% ROI. Consider additional investment in similar ventures.'',
         ri_confidence = 0.75,
         ri_data = JObj [(''roi'', roi), (''paybackPeriod'', paybackPeriod)],
         ri_source = Analysis,
         ri_createdAt = now\<rparr>) st)
     } else Some st
   }"

definition amountCmp :: "runtime \<Rightarrow> jsval \<Rightarrow> jsval \<Rightarrow> jsnum option" where
  \<comment> \<open>\<^verbatim>\<open>(a, b) => b.amount - a.amount\<close>\<close>
  "amountCmp rt a b = do {
     bAmount \<leftarrow> getp b ''amount'';
     aAmount \<leftarrow> getp a ''amount'';
     Some (num_sub (toNum rt bAmount) (toNum rt aAmount))
   }"

definition costRule :: "runtime \<Rightarrow> AnalysisResult \<Rightarrow> extraction \<Rightarrow> extraction option" where
  "costRule rt result st = do {
     operationalCosts \<leftarrow> getp (ar_data result) ''operationalCosts'';
     if truthy operationalCosts \<and> isArray operationalCosts then do {
       sortedCosts \<leftarrow> js_sortE (amountCmp rt) (elems operationalCosts);
       case sortedCosts of
         [] \<Rightarrow> Some st
       | highestCost # rest \<Rightarrow> do {
           highestAmount \<leftarrow> getp highestCost ''amount'';
           total \<leftarrow> reduceE (\<lambda>sum cost. do { amount \<leftarrow> getp cost ''amount''; Some (js_add rt sum amount) })
                      sortedCosts (JNum (Fin 0));
           let costPercentage = num_div (toNum rt highestAmount) (toNum rt total);
           if num_gt costPercentage (Fin 0.3) then do {
             highestName \<leftarrow> getp highestCost ''name'';
             Some (push rt (\<lambda>now. \<lparr>
               ri_id = ''biz-cost-'' @ ar_id result,
               ri_type = Resource,
               ri_title = ''Cost Reduction Opportunity'',
               ri_description = toStr rt highestName @ '' represents ''
                 @ toFixed rt (num_mul costPercentage (Fin 100)) 1
                 @ ''% of your operational costs. Reducing this could significantly improve profitability.'',
               ri_confidence = 0.7,
               ri_data = JObj [(''costName'', highestName), (''costAmount'', highestAmount),
                               (''percentage'', JNum costPercentage)],
               ri_source = Analysis,
               ri_createdAt = now\<rparr>) st)
           } else Some st
         }
     } else Some st
   }"

definition breakEvenRule :: "runtime \<Rightarrow> AnalysisResult \<Rightarrow> extraction \<Rightarrow> extraction option" where
  "breakEvenRule rt result st = do {
     breakEvenUnits \<leftarrow> getp (ar_data result) ''breakEvenUnits'';
     monthlySalesVolume \<leftarrow> getp (ar_data result) ''monthlySalesVolume'';
     if truthy breakEvenUnits \<and> truthy monthlySalesVolume then do {
       let breakEvenRatio = num_div (toNum rt breakEvenUnits) (toNum rt monthlySalesVolume);
       if num_lt breakEvenRatio (Fin 0.5) then
         Some (push rt (\<lambda>now. \<lparr>
           ri_id = ''biz-breakeven-'' @ ar_id result,
           ri_type = Business,
           ri_title = ''Favorable Break-Even Point'',
           ri_description = ''You reach break-even at just ''
             @ toFixed rt (num_mul breakEvenRatio (Fin 100)) 1
             @ ''% of your monthly sales volume. This gives you a safety margin in market fluctuations.'',
           ri_confidence = 0.85,
           ri_data = JObj [(''breakEvenUnits'', breakEvenUnits), (''monthlySalesVolume'', monthlySalesVolume),
                           (''ratio'', JNum breakEvenRatio)],
           ri_source = Analysis,
           ri_createdAt = now\<rparr>) st)
       else Some st
     } else Some st
   }"

definition businessBody :: "runtime \<Rightarrow> AnalysisResult \<Rightarrow> extraction \<Rightarrow> extraction option" where
  \<comment> \<open>the callback of \<^verbatim>\<open>recentBusinessResults.forEach\<close>: the four checks, in order\<close>
  "businessBody rt result st = do {
     st1 \<leftarrow> profitRule rt result st;
     st2 \<leftarrow> roiRule rt result st1;
     st3 \<leftarrow> costRule rt result st2;
     breakEvenRule rt result st3
   }"

definition extractBusinessRecommendations ::
    "runtime \<Rightarrow> AnalysisResult list \<Rightarrow> nat \<Rightarrow> (RecommendationItem list \<times> nat) option" where
  "extractBusinessRecommendations rt results k = do {
     st \<leftarrow> forEachE (businessBody rt) (recentBusinessResults results) \<lparr>recommendations = [], reads = k\<rparr>;
     Some (recommendations st, reads st)
   }"

subsection \<open>\<^verbatim>\<open>extractForecastRecommendations\<close>\<close>

definition recentForecasts :: "AnalysisResult list \<Rightarrow> AnalysisResult list" where
  "recentForecasts results =
     take 3 (sortByRecency (filter (\<lambda>r. ar_type r = ''demand_forecast'') results))"

definition growthRateOf :: "runtime \<Rightarrow> jsval \<Rightarrow> jsval \<Rightarrow> jsnum" where
  \<comment> \<open>\<^verbatim>\<open>(lastForecast - firstForecast) / firstForecast\<close>\<close>
  "growthRateOf rt firstForecast lastForecast =
     num_div (num_sub (toNum rt lastForecast) (toNum rt firstForecast)) (toNum rt firstForecast)"

definition trendRule :: "runtime \<Rightarrow> AnalysisResult \<Rightarrow> extraction \<Rightarrow> extraction option" where
  "trendRule rt result st = do {
     forecasted \<leftarrow> getp (ar_data result) ''forecasted'';
     if truthy forecasted \<and> isArray forecasted \<and> 1 < length (elems forecasted) then do {
       firstForecast \<leftarrow> getp (elems forecasted ! 0) ''forecast'';
       lastForecast \<leftarrow> getp (elems forecasted ! (length (elems forecasted) - 1)) ''forecast'';
       productName \<leftarrow> getp (ar_data result) ''productName'';
       let growthRate = growthRateOf rt firstForecast lastForecast;
       if num_gt growthRate (Fin 0.1) then
         Some (push rt (\<lambda>now. \<lparr>
           ri_id = ''forecast-growth-'' @ ar_id result,
           ri_type = Market,
           ri_title = ''Growing Demand Trend'',
           ri_description = ''Demand for '' @ toStr rt productName @ '' is projected to grow by ''
             @ toFixed rt (num_mul growthRate (Fin 100)) 1
             @ ''% over the forecast period. Consider increasing production capacity.'',
           ri_confidence = 0.75,
           ri_data = JObj [(''productName'', productName), (''growthRate'', JNum growthRate),
                           (''firstForecast'', firstForecast), (''lastForecast'', lastForecast)],
           ri_source = Analysis,
           ri_createdAt = now\<rparr>) st)
       else if num_lt growthRate (Fin (- 0.1)) then
         Some (push rt (\<lambda>now. \<lparr>
           ri_id = ''forecast-decline-'' @ ar_id result,
           ri_type = Market,
           ri_title = ''Declining Demand Alert'',
           ri_description = ''Demand for '' @ toStr rt productName @ '' is projected to decline by ''
             @ toFixed rt (num_mul (num_abs growthRate) (Fin 100)) 1
             @ ''% over the forecast period. Consider diversifying your product mix.'',
           ri_confidence = 0.75,
           ri_data = JObj [(''productName'', productName), (''declineRate'', JNum (num_abs growthRate)),
                           (''firstForecast'', firstForecast), (''lastForecast'', lastForecast)],
           ri_source = Analysis,
           ri_createdAt = now\<rparr>) st)
       else Some st
     } else Some st
   }"

definition seasonalityRule :: "runtime \<Rightarrow> AnalysisResult \<Rightarrow> extraction \<Rightarrow> extraction option" where
  "seasonalityRule rt result st = do {
     chart \<leftarrow> getp (ar_data result) ''chart'';
     if truthy chart then do {
       historical \<leftarrow> getp chart ''historical'';
       if truthy historical \<and> isArray historical then do {
         values \<leftarrow> mapE (\<lambda>h. getp h ''value'') (elems historical);
         let avg = num_div (toNum rt (foldl (js_add rt) (JNum (Fin 0)) values))
                           (Fin (real (length values)));
         let peaks = length (filter (\<lambda>v. num_gt (toNum rt v) (num_mul avg (Fin 1.2))) values);
         if 2 \<le> peaks then do {
           productName \<leftarrow> getp (ar_data result) ''productName'';
           Some (push rt (\<lambda>now. \<lparr>
             ri_id = ''forecast-seasonal-'' @ ar_id result,
             ri_type = Market,
             ri_title = ''Seasonal Demand Pattern'',
             ri_description = toStr rt productName @ '' shows seasonal demand patterns with ''
               @ numToString rt (Fin (real peaks))
               @ '' peak periods. Plan inventory and production to align with these patterns.'',
             ri_confidence = 0.7,
             ri_data = JObj [(''productName'', productName), (''peakPeriods'', JNum (Fin (real peaks))),
                             (''averageDemand'', JNum avg)],
             ri_source = Pattern,
             ri_createdAt = now\<rparr>) st)
         } else Some st
       } else Some st
     } else Some st
   }"

definition accuracyRule :: "runtime \<Rightarrow> AnalysisResult \<Rightarrow> extraction \<Rightarrow> extraction option" where
  "accuracyRule rt result st = do {
     accuracy \<leftarrow> getp (ar_data result) ''accuracy'';
     if truthy accuracy then do {
       mape \<leftarrow> getp accuracy ''mape'';
       if truthy mape \<and> num_lt (toNum rt mape) (Fin 10) then do {
         productName \<leftarrow> getp (ar_data result) ''productName'';
         shown \<leftarrow> callToFixed rt mape 1;
         Some (push rt (\<lambda>now. \<lparr>
           ri_id = ''forecast-accuracy-'' @ ar_id result,
           ri_type = Business,
           ri_title = ''High Forecast Reliability'',
           ri_description = ''Your '' @ toStr rt productName @ '' forecast has a high accuracy (MAPE: ''
             @ shown @ ''%). Use this forecast with confidence for planning.'',
           ri_confidence = 0.8,
           ri_data = JObj [(''productName'', productName), (''mape'', mape)],
           ri_source = Analysis,
           ri_createdAt = now\<rparr>) st)
       } else if truthy mape \<and> num_gt (toNum rt mape) (Fin 20) then do {
         productName \<leftarrow> getp (ar_data result) ''productName'';
         shown \<leftarrow> callToFixed rt mape 1;
         Some (push rt (\<lambda>now. \<lparr>
           ri_id = ''forecast-inaccuracy-'' @ ar_id result,
           ri_type = Business,
           ri_title = ''Forecast Uncertainty Alert'',
           ri_description = ''Your '' @ toStr rt productName @ '' forecast has a higher error rate (MAPE: ''
             @ shown @ ''%). Consider using more historical data or adjusting your forecast method.'',
           ri_confidence = 0.7,
           ri_data = JObj [(''productName'', productName), (''mape'', mape)],
           ri_source = Analysis,
           ri_createdAt = now\<rparr>) st)
       } else Some st
     } else Some st
   }"

definition forecastBody :: "runtime \<Rightarrow> AnalysisResult \<Rightarrow> extraction \<Rightarrow> extraction option" where
  \<comment> \<open>the callback of \<^verbatim>\<open>recentForecasts.forEach\<close>: trend, seasonality, accuracy\<close>
  "forecastBody rt result st = do {
     st1 \<leftarrow> trendRule rt result st;
     st2 \<leftarrow> seasonalityRule rt result st1;
     accuracyRule rt result st2
   }"

definition extractForecastRecommendations ::
    "runtime \<Rightarrow> AnalysisResult list \<Rightarrow> nat \<Rightarrow> (RecommendationItem list \<times> nat) option" where
  "extractForecastRecommendations rt results k = do {
     st \<leftarrow> forEachE (forecastBody rt) (recentForecasts results) \<lparr>recommendations = [], reads = k\<rparr>;
     Some (recommendations st, reads st)
   }"

subsection \<open>\<^verbatim>\<open>extractOptimizationRecommendations\<close>\<close>

definition recentOptimizations :: "AnalysisResult list \<Rightarrow> AnalysisResult list" where
  "recentOptimizations results =
     take 3 (sortByRecency (filter (\<lambda>r. ar_type r = ''optimization'') results))"

definition feasibleRule :: "runtime \<Rightarrow> AnalysisResult \<Rightarrow> extraction \<Rightarrow> extraction option" where
  "feasibleRule rt result st = do {
     name \<leftarrow> getp (ar_data result) ''name'';
     objectiveValue \<leftarrow> getp (ar_data result) ''objectiveValue'';
     solution \<leftarrow> (if truthy objectiveValue
                  then do { shown \<leftarrow> callToFixed rt objectiveValue 2; Some (''an objective value of '' @ shown) }
                  else Some ''optimized resource allocation'');
     Some (push rt (\<lambda>now. \<lparr>
       ri_id = ''opt-feasible-'' @ ar_id result,
       ri_type = Resource,
       ri_title = ''Optimal Resource Allocation'',
       ri_description = ''Your '' @ toStr rt name @ '' optimization model has a feasible solution with ''
         @ solution @ ''.'',
       ri_confidence = 0.9,
       ri_data = JObj [(''optimizationName'', name), (''objectiveValue'', objectiveValue)],
       ri_source = Analysis,
       ri_createdAt = now\<rparr>) st)
   }"

definition valueCmp :: "runtime \<Rightarrow> jsval \<Rightarrow> jsval \<Rightarrow> jsnum option" where
  \<comment> \<open>\<^verbatim>\<open>(a, b) => b.value - a.value\<close>\<close>
  "valueCmp rt a b = do {
     bValue \<leftarrow> getp b ''value'';
     aValue \<leftarrow> getp a ''value'';
     Some (num_sub (toNum rt bValue) (toNum rt aValue))
   }"

definition variablesRule :: "runtime \<Rightarrow> AnalysisResult \<Rightarrow> extraction \<Rightarrow> extraction option" where
  "variablesRule rt result st = do {
     variables \<leftarrow> getp (ar_data result) ''variables'';
     if truthy variables \<and> isArray variables then do {
       positive \<leftarrow> filterE (\<lambda>v. do { x \<leftarrow> getp v ''value''; Some (num_gt (toNum rt x) (Fin 0)) })
                     (elems variables);
       sorted \<leftarrow> js_sortE (valueCmp rt) positive;
       let significantVariables = take 3 sorted;
       if 0 < length significantVariables then do {
         shown \<leftarrow> mapE (\<lambda>v. do {
                    n \<leftarrow> getp v ''name'';
                    x \<leftarrow> getp v ''value'';
                    fixed \<leftarrow> callToFixed rt x 2;
                    Some (toStr rt n @ '': '' @ fixed) }) significantVariables;
         let varList = joinWith '', '' shown;
         name \<leftarrow> getp (ar_data result) ''name'';
         Some (push rt (\<lambda>now. \<lparr>
           ri_id = ''opt-resources-'' @ ar_id result,
           ri_type = Resource,
           ri_title = ''Key Resource Allocation'',
           ri_description = ''Focus on these resources for optimal results: '' @ varList,
           ri_confidence = 0.8,
           ri_data = JObj [(''optimizationName'', name), (''topResources'', JArr significantVariables)],
           ri_source = Analysis,
           ri_createdAt = now\<rparr>) st)
       } else Some st
     } else Some st
   }"

definition constraintsRule :: "runtime \<Rightarrow> AnalysisResult \<Rightarrow> extraction \<Rightarrow> extraction option" where
  "constraintsRule rt result st = do {
     constraints \<leftarrow> getp (ar_data result) ''constraints'';
     if truthy constraints \<and> isArray constraints then do {
       binding \<leftarrow> filterE (\<lambda>c. do {
                    slack \<leftarrow> getp c ''slack'';
                    Some (slack = JNum (Fin 0) \<or> num_lt (num_abs (toNum rt slack)) (Fin 0.001)) })
                    (elems constraints);
       bindingConstraints \<leftarrow> mapE (\<lambda>c. getp c ''name'') binding;
       if 0 < length bindingConstraints then do {
         name \<leftarrow> getp (ar_data result) ''name'';
         Some (push rt (\<lambda>now. \<lparr>
           ri_id = ''opt-constraints-'' @ ar_id result,
           ri_type = Business,
           ri_title = ''Resource Bottlenecks Identified'',
           ri_description = ''These factors are limiting your optimization: ''
             @ joinVals rt '', '' bindingConstraints @ ''. Consider increasing these resources.'',
           ri_confidence = 0.85,
           ri_data = JObj [(''optimizationName'', name), (''bindingConstraints'', JArr bindingConstraints)],
           ri_source = Analysis,
           ri_createdAt = now\<rparr>) st)
       } else Some st
     } else Some st
   }"

definition infeasibleRule :: "runtime \<Rightarrow> AnalysisResult \<Rightarrow> extraction \<Rightarrow> extraction option" where
  "infeasibleRule rt result st = do {
     name \<leftarrow> getp (ar_data result) ''name'';
     Some (push rt (\<lambda>now. \<lparr>
       ri_id = ''opt-infeasible-'' @ ar_id result,
       ri_type = Business,
       ri_title = ''Resource Constraints Too Tight'',
       ri_description = ''Your '' @ toStr rt name
         @ '' optimization model doesn't have a feasible solution. Consider relaxing some constraints or adding more resources.'',
       ri_confidence = 0.9,
       ri_data = JObj [(''optimizationName'', name)],
       ri_source = Analysis,
       ri_createdAt = now\<rparr>) st)
   }"

definition optimizationBody :: "runtime \<Rightarrow> AnalysisResult \<Rightarrow> extraction \<Rightarrow> extraction option" where
  \<comment> \<open>the callback of \<^verbatim>\<open>recentOptimizations.forEach\<close>\<close>
  "optimizationBody rt result st = do {
     feasible \<leftarrow> getp (ar_data result) ''feasible'';
     if feasible = JBool True then do {
       st1 \<leftarrow> feasibleRule rt result st;
       st2 \<leftarrow> variablesRule rt result st1;
       constraintsRule rt result st2
     } else if feasible = JBool False then infeasibleRule rt result st
     else Some st
   }"

definition extractOptimizationRecommendations ::
    "runtime \<Rightarrow> AnalysisResult list \<Rightarrow> nat \<Rightarrow> (RecommendationItem list \<times> nat) option" where
  "extractOptimizationRecommendations rt results k = do {
     st \<leftarrow> forEachE (optimizationBody rt) (recentOptimizations results) \<lparr>recommendations = [], reads = k\<rparr>;
     Some (recommendations st, reads st)
   }"

subsection \<open>\<^verbatim>\<open>extractChatInsights\<close>\<close>

definition keywordMap :: "(string \<times> string) list" where
  \<comment> \<open>in the order of \<^verbatim>\<open>Object.entries(keywordMap)\<close>\<close>
  "keywordMap =
     [(''increase'', ''growth''), (''expand'', ''growth''), (''grow'', ''growth''),
      (''profit'', ''profit''), (''revenue'', ''profit''),
      (''cost'', ''cost''), (''expense'', ''cost''), (''save'', ''cost''),
      (''risk'', ''risk''),
      (''market'', ''market''), (''demand'', ''market''), (''customer'', ''market''),
      (''season'', ''seasonal''), (''weather'', ''seasonal''), (''climate'', ''seasonal''),
      (''resource'', ''resource''), (''water'', ''resource''), (''soil'', ''resource''),
      (''fertilizer'', ''resource''), (''pest'', ''resource''), (''equipment'', ''resource'')]"

type_synonym categories = "(string \<times> string list) list"

definition emptyCategories :: categories where
  \<comment> \<open>the object \<^verbatim>\<open>categories\<close>, in the order of its keys\<close>
  "emptyCategories =
     [(''growth'', []), (''profit'', []), (''cost'', []), (''risk'', []),
      (''market'', []), (''seasonal'', []), (''resource'', [])]"

definition pushSentence :: "string \<Rightarrow> string \<Rightarrow> categories \<Rightarrow> categories" where
  \<comment> \<open>\<^verbatim>\<open>categories[category].push(sentence)\<close>\<close>
  "pushSentence category sentence cats =
     map (\<lambda>(c, sentences). if c = category then (c, sentences @ [sentence]) else (c, sentences)) cats"

definition recentMessages :: "ChatMessage list \<Rightarrow> ChatMessage list" where
  "recentMessages messages =
     take 10 (js_sort (\<lambda>a b. recencyCmp (cm_created_at a) (cm_created_at b))
                (filter (\<lambda>m. cm_role m = ''assistant'') messages))"

definition recordKeyword :: "ChatMessage \<Rightarrow> string \<times> string \<Rightarrow> categories \<Rightarrow> categories" where
  \<comment> \<open>the callback of \<^verbatim>\<open>Object.entries(keywordMap).forEach\<close>, for one message\<close>
  "recordKeyword message entry cats =
     (case entry of (keyword, category) \<Rightarrow>
        if str_includes (toLowerCase (cm_content message)) keyword then
          (let sentences = splitSentences (cm_content message);
               relevantSentences = filter (\<lambda>s. str_includes (toLowerCase s) keyword) sentences
           in if 0 < length relevantSentences
              then pushSentence category (trim (hd relevantSentences)) cats
              else cats)
        else cats)"

definition scanMessages :: "ChatMessage list \<Rightarrow> categories" where
  \<comment> \<open>\<^verbatim>\<open>recentMessages.forEach(message => ...)\<close>\<close>
  "scanMessages messages =
     fold (\<lambda>message cats. fold (recordKeyword message) keywordMap cats) (recentMessages messages)
       emptyCategories"

definition chatType :: "string \<Rightarrow> recType" where
  "chatType category =
     (if category = ''growth'' \<or> category = ''profit'' then Business
      else if category = ''market'' \<or> category = ''seasonal'' then Market
      else if category = ''resource'' \<or> category = ''cost'' then Resource
      else Business)"

definition chatTitles :: "(string \<times> string) list" where
  "chatTitles =
     [(''growth'', ''Growth Opportunity''), (''profit'', ''Profit Enhancement''),
      (''cost'', ''Cost Saving Opportunity''), (''risk'', ''Risk Management''),
      (''market'', ''Market Intelligence''), (''seasonal'', ''Seasonal Planning''),
      (''resource'', ''Resource Optimization'')]"

definition chatTitle :: "string \<Rightarrow> string" where
  \<comment> \<open>\<^verbatim>\<open>title || 'AI Insight'\<close>\<close>
  "chatTitle category =
     (case map_of chatTitles category of None \<Rightarrow> ''AI Insight''
      | Some title \<Rightarrow> if title = [] then ''AI Insight'' else title)"

definition chatItem :: "runtime \<Rightarrow> string \<Rightarrow> string list \<Rightarrow> nat \<Rightarrow> RecommendationItem" where
  \<comment> \<open>the item of a category; \<^verbatim>\<open>Date.now()\<close> is reading \<open>k\<close> of the clock and \<^verbatim>\<open>new Date()\<close> the next one\<close>
  "chatItem rt category sentences k = \<lparr>
     ri_id = ''chat-'' @ category @ ''-'' @ numToString rt (Fin (real_of_int (clock rt k))),
     ri_type = chatType category,
     ri_title = chatTitle category,
     ri_description = hd sentences,
     ri_confidence = 0.6,
     ri_data = JObj [(''category'', JStr category), (''relatedSentences'', JArr (map JStr sentences))],
     ri_source = Chat,
     ri_createdAt = clock rt (Suc k)\<rparr>"

definition emitCategory :: "runtime \<Rightarrow> string \<times> string list \<Rightarrow> extraction \<Rightarrow> extraction" where
  \<comment> \<open>the callback of \<^verbatim>\<open>Object.entries(categories).forEach\<close>\<close>
  "emitCategory rt entry st =
     (case entry of (category, sentences) \<Rightarrow>
        if 0 < length sentences then
          st\<lparr>recommendations := recommendations st @ [chatItem rt category sentences (reads st)],
             reads := reads st + 2\<rparr>
        else st)"

definition extractChatInsights ::
    "runtime \<Rightarrow> ChatMessage list \<Rightarrow> nat \<Rightarrow> RecommendationItem list \<times> nat" where
  "extractChatInsights rt messages k =
     (let st = fold (emitCategory rt) (scanMessages messages) \<lparr>recommendations = [], reads = k\<rparr>
      in (recommendations st, reads st))"

subsection \<open>\<^verbatim>\<open>addSeasonalRecommendations\<close>\<close>

fun seasonalCrops :: "season \<Rightarrow> string list" where
  "seasonalCrops Spring = [''Corn'', ''Soybeans'', ''Rice'', ''Cotton'', ''Vegetables'']"
| "seasonalCrops Summer = [''Sunflower'', ''Sorghum'', ''Millet'', ''Vegetables'', ''Fruits'']"
| "seasonalCrops Fall = [''Winter Wheat'', ''Barley'', ''Rapeseed'', ''Root vegetables'']"
| "seasonalCrops Winter = [''Planning'', ''Equipment maintenance'', ''Soil preparation'']"

fun seasonalActivities :: "season \<Rightarrow> string list" where
  "seasonalActivities Spring = [''Planting'', ''Soil preparation'', ''Fertilizing'', ''Pest management planning'']"
| "seasonalActivities Summer = [''Irrigation management'', ''Pest control'', ''Crop monitoring'', ''Early harvest planning'']"
| "seasonalActivities Fall = [''Harvesting'', ''Storage preparation'', ''Market research'', ''Winter crop planting'']"
| "seasonalActivities Winter = [''Equipment maintenance'', ''Financial planning'', ''Education'', ''Crop planning'']"

definition capitalize :: "string \<Rightarrow> string" where
  \<comment> \<open>\<^verbatim>\<open>s.charAt(0).toUpperCase() + s.slice(1)\<close>\<close>
  "capitalize s = (case s of [] \<Rightarrow> [] | c # cs \<Rightarrow> toUpperChar c # cs)"

definition cropItem :: "runtime \<Rightarrow> season \<Rightarrow> nat \<Rightarrow> RecommendationItem" where
  "cropItem rt s k = \<lparr>
     ri_id = ''seasonal-crop-'' @ numToString rt (Fin (real_of_int (clock rt k))),
     ri_type = Crop,
     ri_title = capitalize (seasonName s) @ '' Crop Recommendations'',
     ri_description = ''Consider focusing on these crops this '' @ seasonName s @ '': ''
       @ joinWith '', '' (seasonalCrops s) @ ''.'',
     ri_confidence = 0.7,
     ri_data = JObj [(''season'', JStr (seasonName s)), (''recommendedCrops'', JArr (map JStr (seasonalCrops s)))],
     ri_source = Seasonal,
     ri_createdAt = clock rt (Suc k)\<rparr>"

definition activityItem :: "runtime \<Rightarrow> season \<Rightarrow> nat \<Rightarrow> RecommendationItem" where
  "activityItem rt s k = \<lparr>
     ri_id = ''seasonal-activity-'' @ numToString rt (Fin (real_of_int (clock rt k))),
     ri_type = Business,
     ri_title = capitalize (seasonName s) @ '' Activity Focus'',
     ri_description = ''Key activities for this '' @ seasonName s @ '': ''
       @ joinWith '', '' (seasonalActivities s) @ ''.'',
     ri_confidence = 0.7,
     ri_data = JObj [(''season'', JStr (seasonName s)),
                     (''recommendedActivities'', JArr (map JStr (seasonalActivities s)))],
     ri_source = Seasonal,
     ri_createdAt = clock rt (Suc k)\<rparr>"

definition addSeasonalRecommendations ::
    "runtime \<Rightarrow> season option \<Rightarrow> nat \<Rightarrow> RecommendationItem list \<times> nat" where
  "addSeasonalRecommendations rt current k =
     (case current of
        None \<Rightarrow> ([], k)
      | Some s \<Rightarrow> ([cropItem rt s k, activityItem rt s (k + 2)], k + 4))"

subsection \<open>\<^verbatim>\<open>generateRecommendations\<close>\<close>

definition createdAtCmp :: "RecommendationItem \<Rightarrow> RecommendationItem \<Rightarrow> jsnum" where
  \<comment> \<open>the first comparator: \<^verbatim>\<open>dateB - dateA\<close>; every \<^verbatim>\<open>createdAt\<close> is a \<^verbatim>\<open>Date\<close>\<close>
  "createdAtCmp a b = Fin (real_of_int (ri_createdAt b) - real_of_int (ri_createdAt a))"

definition sameDayCmp :: "runtime \<Rightarrow> RecommendationItem \<Rightarrow> RecommendationItem \<Rightarrow> jsnum" where
  \<comment> \<open>the second comparator: by confidence within one calendar day, and \<open>0\<close> otherwise\<close>
  "sameDayCmp rt a b =
     (if toDateString rt (ri_createdAt a) = toDateString rt (ri_createdAt b)
      then Fin (ri_confidence b - ri_confidence a)
      else Fin 0)"

definition titleOf :: "RecommendationItem option \<Rightarrow> string" where
  \<comment> \<open>\<^verbatim>\<open>if (rec) summary += rec.title + ". "\<close>\<close>
  "titleOf r = (case r of None \<Rightarrow> [] | Some x \<Rightarrow> ri_title x @ ''. '')"

definition fallbackSummary :: string where
  "fallbackSummary =
     ''Insufficient data for personalized recommendations. Continue using Arina to analyze your agricultural business for tailored insights.''"

definition buildSummary :: "RecommendationInput \<Rightarrow> RecommendationItem list \<Rightarrow> string" where
  "buildSummary input topRecs =
     (if 0 < length topRecs then
        (let businessRec = find (\<lambda>r. ri_type r = Business) topRecs;
             marketRec = find (\<lambda>r. ri_type r = Market) topRecs;
             resourceRec = find (\<lambda>r. ri_type r = Resource) topRecs;
             cropRec = find (\<lambda>r. ri_type r = Crop) topRecs;
             business = length (filter (\<lambda>r. ar_type r = ''business_feasibility'') (analysisResults input));
             forecast = length (filter (\<lambda>r. ar_type r = ''demand_forecast'') (analysisResults input));
             optimization = length (filter (\<lambda>r. ar_type r = ''optimization'') (analysisResults input));
             opening =
               (if 0 < business \<or> 0 < forecast \<or> 0 < optimization then
                  ''Based on your ''
                  @ (if 0 < business then ''business feasibility analysis, '' else [])
                  @ (if 0 < forecast then ''demand forecasting, '' else [])
                  @ (if 0 < optimization then ''optimization analysis, '' else [])
                  @ ''we recommend: ''
                else ''Based on your historical data, we recommend: '')
         in opening @ titleOf businessRec @ titleOf marketRec @ titleOf resourceRec @ titleOf cropRec
            @ (case currentSeason input of
                 None \<Rightarrow> []
               | Some s \<Rightarrow> ''Consider adjusting your strategy for the '' @ seasonName s @ '' season.''))
      else fallbackSummary)"

definition generateRecommendations :: "runtime \<Rightarrow> RecommendationInput \<Rightarrow> RecommendationSet option" where
  "generateRecommendations rt input = do {
     let sortedResults = take 10 (sortByRecency (analysisResults input));
     (businessRecs, k1) \<leftarrow> extractBusinessRecommendations rt sortedResults 0;
     (forecastRecs, k2) \<leftarrow> extractForecastRecommendations rt sortedResults k1;
     (optimizationRecs, k3) \<leftarrow> extractOptimizationRecommendations rt sortedResults k2;
     let (chatRecs, k4) = extractChatInsights rt (chatHistory input) k3;
     let (seasonalRecs, k5) = addSeasonalRecommendations rt (currentSeason input) k4;
     let allRecommendations = businessRecs @ forecastRecs @ optimizationRecs @ chatRecs @ seasonalRecs;
     let byRecency = js_sort createdAtCmp allRecommendations;
     let byConfidence = js_sort (sameDayCmp rt) byRecency;
     let finalRecommendations = take 10 byConfidence;
     let topRecs = take 5 finalRecommendations;
     Some \<lparr>
       rs_id = ''rec-set-'' @ numToString rt (Fin (real_of_int (clock rt k5))),
       rs_userId = userId input,
       rs_recommendations = finalRecommendations,
       rs_summary = buildSummary input topRecs,
       rs_createdAt = clock rt (Suc k5)\<rparr>
   }"

subsection \<open>What a step emits\<close>

text \<open>
  The extractors only append to \<^verbatim>\<open>recommendations\<close>. \<open>emitted st r\<close> is the list of items
  that a step started in state \<open>st\<close> appended, when its result is \<open>r\<close>; it is \<open>None\<close>
  when the step raised. \<open>facts\<close> are the fields of an item that the rules fix: title,
  confidence, type and source.
\<close>

definition emitted :: "extraction \<Rightarrow> extraction option \<Rightarrow> RecommendationItem list option" where
  "emitted st r = map_option (\<lambda>st'. drop (length (recommendations st)) (recommendations st')) r"

definition facts :: "RecommendationItem \<Rightarrow> string \<times> real \<times> recType \<times> recSource" where
  "facts item = (ri_title item, ri_confidence item, ri_type item, ri_source item)"

subsection \<open>How item ids are built\<close>

text \<open>
  Every item id is one of the fixed prefixes below followed by a suffix: the id of the
  source analysis, or a clock reading. \<open>tagged P X items\<close> says that the ids of \<open>items\<close>
  are pairwise distinct and that each is a prefix from \<open>P\<close> followed by a suffix from \<open>X\<close>.
  A set of prefixes is \<open>prefixFree\<close> when a string starts with at most one of them.
\<close>

definition bizPrefixes :: "string list" where
  "bizPrefixes = [''biz-profit-'', ''biz-roi-'', ''biz-cost-'', ''biz-breakeven-'']"

definition forecastPrefixes :: "string list" where
  "forecastPrefixes =
     [''forecast-growth-'', ''forecast-decline-'', ''forecast-seasonal-'',
      ''forecast-accuracy-'', ''forecast-inaccuracy-'']"

definition optPrefixes :: "string list" where
  "optPrefixes = [''opt-feasible-'', ''opt-resources-'', ''opt-constraints-'', ''opt-infeasible-'']"

definition chatPrefixes :: "string list" where
  "chatPrefixes =
     [''chat-growth-'', ''chat-profit-'', ''chat-cost-'', ''chat-risk-'', ''chat-market-'',
      ''chat-seasonal-'', ''chat-resource-'']"

definition seasonalPrefixes :: "string list" where
  "seasonalPrefixes = [''seasonal-crop-'', ''seasonal-activity-'']"

definition idPrefixes :: "string list" where
  "idPrefixes = bizPrefixes @ forecastPrefixes @ optPrefixes @ chatPrefixes @ seasonalPrefixes"

definition prefixFree :: "string set \<Rightarrow> bool" where
  "prefixFree P \<longleftrightarrow> (\<forall>p \<in> P. \<forall>q \<in> P. \<forall>x y. p @ x = q @ y \<longrightarrow> p = q)"

definition tagged :: "string set \<Rightarrow> string set \<Rightarrow> RecommendationItem list \<Rightarrow> bool" where
  "tagged P X items \<longleftrightarrow>
     distinct (map ri_id items) \<and> (\<forall>item \<in> set items. \<exists>p \<in> P. \<exists>x \<in> X. ri_id item = p @ x)"

definition emits :: "string set \<Rightarrow> (AnalysisResult \<Rightarrow> extraction \<Rightarrow> extraction option) \<Rightarrow> bool" where
  \<comment> \<open>a step that, run on an analysis, only appends items whose ids are a prefix of \<open>P\<close> and the id of the analysis\<close>
  "emits P f \<longleftrightarrow>
     (\<forall>r st st'. f r st = Some st' \<longrightarrow>
        (\<exists>new. recommendations st' = recommendations st @ new \<and> tagged P {ar_id r} new))"

subsection \<open>Well-shaped payloads\<close>

text \<open>
  The shape the rules rely on: the payload is not \<^verbatim>\<open>null\<close>; the arrays the rules walk
  through (\<^verbatim>\<open>operationalCosts\<close>, \<^verbatim>\<open>forecasted\<close>, \<^verbatim>\<open>chart.historical\<close>, \<^verbatim>\<open>variables\<close>,
  \<^verbatim>\<open>constraints\<close>) hold no \<^verbatim>\<open>null\<close> element; and the values the rules print with
  \<^verbatim>\<open>toFixed\<close> (\<^verbatim>\<open>accuracy.mape\<close>, \<^verbatim>\<open>objectiveValue\<close>, the \<^verbatim>\<open>value\<close> of a variable) are numbers
  where they are present. Every field may be absent, and a field that is not an array
  where an array is expected has no elements. \<open>field v p\<close> is the value of \<^verbatim>\<open>v.p\<close>, and
  \<^verbatim>\<open>undefined\<close> where the read would raise. \<open>plain\<close> is the assumption on payloads made
  at the start: no object within the value has a property named \<^verbatim>\<open>toString\<close>.
\<close>

fun plain :: "jsval \<Rightarrow> bool" where
  "plain (JObj kvs) = (map_of kvs ''toString'' = None \<and> list_all (\<lambda>kv. plain (snd kv)) kvs)"
| "plain (JArr xs) = list_all plain xs"
| "plain v = True"

definition field :: "jsval \<Rightarrow> string \<Rightarrow> jsval" where
  "field v p = (case getp v p of None \<Rightarrow> JUndefined | Some x \<Rightarrow> x)"

definition noNullElements :: "jsval \<Rightarrow> bool" where
  "noNullElements v = list_all (\<lambda>e. e \<noteq> JUndefined \<and> e \<noteq> JNull) (elems v)"

fun numberOrAbsent :: "jsval \<Rightarrow> bool" where
  "numberOrAbsent (JNum n) = True"
| "numberOrAbsent JUndefined = True"
| "numberOrAbsent JNull = True"
| "numberOrAbsent v = False"

definition wellShaped :: "jsval \<Rightarrow> bool" where
  "wellShaped d \<longleftrightarrow>
     d \<noteq> JUndefined \<and> d \<noteq> JNull \<and> plain d
     \<and> noNullElements (field d ''operationalCosts'')
     \<and> noNullElements (field d ''forecasted'')
     \<and> noNullElements (field (field d ''chart'') ''historical'')
     \<and> numberOrAbsent (field (field d ''accuracy'') ''mape'')
     \<and> numberOrAbsent (field d ''objectiveValue'')
     \<and> noNullElements (field d ''variables'')
     \<and> list_all (\<lambda>v. numberOrAbsent (field v ''value'')) (elems (field d ''variables''))
     \<and> noNullElements (field d ''constraints'')"

subsection \<open>Sample inputs\<close>

text \<open>Concrete values, used where a property is evaluated on an input.\<close>

definition sampleRuntime :: runtime where
  "sampleRuntime = \<lparr>
     clock = (\<lambda>k. 1000 + int k),
     toDateString = (\<lambda>t. ''Thu Jan 01 1970''),
     numToString = (\<lambda>n. ''n''),
     toFixed = (\<lambda>n d. ''n''),
     stringToNumber = (\<lambda>s. NaN)\<rparr>"

definition analysis :: "string \<Rightarrow> string \<Rightarrow> jsval \<Rightarrow> timeval option \<Rightarrow> AnalysisResult" where
  "analysis i t d c =
     \<lparr>ar_id = i, ar_user_id = ''u1'', ar_type = t, ar_data = d, ar_created_at = c, ar_updated_at = c\<rparr>"

definition emptyExtraction :: extraction where
  "emptyExtraction = \<lparr>recommendations = [], reads = 0\<rparr>"

definition timeless :: "RecommendationItem \<Rightarrow> RecommendationItem" where
  \<comment> \<open>an item without the two fields that are read from the clock\<close>
  "timeless item = item\<lparr>ri_id := [], ri_createdAt := 0\<rparr>"

definition winterInput :: RecommendationInput where
  "winterInput = \<lparr>userId = ''u1'', analysisResults = [], chatHistory = [], currentSeason = Some Winter\<rparr>"

definition emptyInput :: RecommendationInput where
  "emptyInput = \<lparr>userId = ''u1'', analysisResults = [], chatHistory = [], currentSeason = None\<rparr>"




definition profitData :: jsval where
  "profitData =
     JObj [(''businessName'', JStr ''FarmCo''), (''profitMargin'', JNum (Fin 0.3)), (''roi'', JNum (Fin 0.2))]"

definition busyInput :: RecommendationInput where
  \<comment> \<open>three scanned business analyses with two items each, four chat categories and a season: twelve items\<close>
  "busyInput = \<lparr>userId = ''u1'',
     analysisResults =
       [analysis ''a1'' ''business_feasibility'' profitData (Some (Time 1)),
        analysis ''a2'' ''business_feasibility'' profitData (Some (Time 2)),
        analysis ''a3'' ''business_feasibility'' profitData (Some (Time 3)),
        analysis ''a4'' ''business_feasibility'' profitData (Some (Time 4))],
     chatHistory =
       [\<lparr>cm_id = ''m1'', cm_conversation_id = ''c1'', cm_role = ''assistant'',
         cm_content = ''Expand. Profit! Cost? Risk'', cm_created_at = None\<rparr>],
     currentSeason = Some Winter\<rparr>"

section \<open>Properties\<close>

subsection \<open>Sorting\<close>

text \<open>
  \<open>js_sort\<close> returns a permutation, whatever the comparator; \<open>js_sortE\<close> is the same
  sort for a comparator that can raise.
\<close>

lemma mset_insertBy: "mset (insertBy cmp x xs) = add_mset x (mset xs)"
  by (induction xs) auto

lemma mset_js_sort: "mset (js_sort cmp xs) = mset xs"
  by (induction xs) (auto simp: js_sort_def mset_insertBy)

lemma set_js_sort: "set (js_sort cmp xs) = set xs"
  using mset_js_sort [of cmp xs] by (metis set_mset_mset)

lemma length_js_sort: "length (js_sort cmp xs) = length xs"
  using mset_js_sort [of cmp xs] by (metis size_mset)

lemma distinct_js_sort: "distinct (map f (js_sort cmp xs)) = distinct (map f xs)"
proof -
  have "mset (map f (js_sort cmp xs)) = mset (map f xs)"
    by (simp add: mset_js_sort)
  then show ?thesis by (metis distinct_count_atmost_1 set_mset_mset)
qed

lemma js_sortE_pure: "js_sortE (\<lambda>a b. Some (cmp a b)) xs = Some (js_sort cmp xs)"
proof -
  have ins: "insertByE (\<lambda>a b. Some (cmp a b)) x ys = Some (insertBy cmp x ys)" for x ys
    by (induction ys) simp_all
  show ?thesis
    by (induction xs) (simp_all add: js_sort_def ins)
qed

lemma set_insertBy: "set (insertBy cmp x xs) = insert x (set xs)"
  using mset_insertBy [of cmp x xs] by (metis set_mset_add_mset_insert set_mset_mset)

lemma recencyCmp_valid:
  assumes "ca \<noteq> Some InvalidDate" and "cb \<noteq> Some InvalidDate"
  shows "num_gt (recencyCmp ca cb) (Fin 0) \<longleftrightarrow> epochTime ca < epochTime cb"
proof -
  have a: "dateOrZero ca = Fin (real_of_int (epochTime ca))"
    using assms(1) by (cases ca; cases "the ca") (auto simp: dateOrZero_def epochTime_def)
  have b: "dateOrZero cb = Fin (real_of_int (epochTime cb))"
    using assms(2) by (cases cb; cases "the cb") (auto simp: dateOrZero_def epochTime_def)
  show ?thesis by (simp add: recencyCmp_def num_sub_def num_gt_def a b)
qed

lemma newestFirst_insertBy:
  assumes "ar_created_at x \<noteq> Some InvalidDate"
    and "\<forall>r \<in> set ys. ar_created_at r \<noteq> Some InvalidDate"
    and "newestFirst ys"
  shows "newestFirst (insertBy (\<lambda>a b. recencyCmp (ar_created_at a) (ar_created_at b)) x ys)"
  using assms
proof (induction ys)
  case Nil
  then show ?case by (simp add: newestFirst_def)
next
  case (Cons y ys)
  then show ?case
    by (auto simp: newestFirst_def recencyCmp_valid set_insertBy)
qed

lemma newestFirst_sortByRecency:
  assumes "\<forall>r \<in> set xs. ar_created_at r \<noteq> Some InvalidDate"
  shows "newestFirst (sortByRecency xs)"
  using assms
proof (induction xs)
  case Nil
  then show ?case by (simp add: newestFirst_def sortByRecency_def js_sort_def)
next
  case (Cons x xs)
  have "newestFirst (js_sort (\<lambda>a b. recencyCmp (ar_created_at a) (ar_created_at b)) xs)"
    using Cons by (simp add: sortByRecency_def)
  moreover have "\<forall>r \<in> set (js_sort (\<lambda>a b. recencyCmp (ar_created_at a) (ar_created_at b)) xs).
      ar_created_at r \<noteq> Some InvalidDate"
    using Cons.prems by (simp add: set_js_sort)
  ultimately show ?case
    using Cons.prems newestFirst_insertBy [of x]
    by (simp add: sortByRecency_def js_sort_def)
qed

text \<open>
  Claim C1, as the specification states it, says that the recency sorter orders every
  list newest first when a missing or unparseable timestamp counts as the epoch. An
  unparseable timestamp is truthy, so the code takes its \<^verbatim>\<open>getTime()\<close>, which is \<^verbatim>\<open>NaN\<close>,
  not \<open>0\<close>; every comparison with that record returns \<^verbatim>\<open>NaN\<close> and \<^verbatim>\<open>sort\<close> takes it for
  "equal". In a list of two, an unparseable record followed by a record of time 10, the
  only comparison says "equal", the stable sort keeps the order, and the record that
  should count as the epoch stays first.
\<close>

theorem sortByRecency_unparseable_counterexample:
  "sortByRecency
     [analysis ''x'' ''optimization'' (JObj []) (Some InvalidDate),
      analysis ''b'' ''optimization'' (JObj []) (Some (Time 10))]
   = [analysis ''x'' ''optimization'' (JObj []) (Some InvalidDate),
      analysis ''b'' ''optimization'' (JObj []) (Some (Time 10))]
   \<and> epochTime (Some InvalidDate) = 0
   \<and> \<not> newestFirst (sortByRecency
     [analysis ''x'' ''optimization'' (JObj []) (Some InvalidDate),
      analysis ''b'' ''optimization'' (JObj []) (Some (Time 10))])"
  by (simp add: sortByRecency_def js_sort_def recencyCmp_def dateOrZero_def num_sub_def
      num_gt_def analysis_def newestFirst_def epochTime_def)

text \<open>
  Claim C1, amended: for every input list, the recency sorter returns a new array (at a
  fresh address \<open>c\<close> of the store) that is a permutation of the input, of the same length,
  and it leaves the input array, and every other array of the store, as it was; when no
  timestamp of the list is unparseable, the new array is ordered non-increasing by
  timestamp, a missing timestamp counting as the epoch.
\<close>

theorem sortByRecency_sorted_permutation:
  assumes "a < length h"
  shows "case sortByRecency_store h a of (c, h') \<Rightarrow>
           c \<noteq> a \<and> (\<forall>i < length h. h' ! i = h ! i) \<and>
           h' ! c = sortByRecency (h ! a) \<and>
           mset (h' ! c) = mset (h ! a) \<and> length (h' ! c) = length (h ! a) \<and>
           ((\<forall>r \<in> set (h ! a). ar_created_at r \<noteq> Some InvalidDate) \<longrightarrow> newestFirst (h' ! c))"
proof -
  have "newestFirst (sortByRecency (h ! a))"
    if "\<forall>r \<in> set (h ! a). ar_created_at r \<noteq> Some InvalidDate"
    using that by (rule newestFirst_sortByRecency)
  then show ?thesis
    using assms
    by (simp add: sortByRecency_store_def spread_def sort_in_place_def nth_append
        sortByRecency_def mset_js_sort length_js_sort)
qed

theorem sortByRecency_sorted_permutation_witness:
  "(0::nat) < length [[analysis ''a'' ''optimization'' (JObj []) (Some (Time 5)),
                       analysis ''m'' ''optimization'' (JObj []) None,
                       analysis ''b'' ''optimization'' (JObj []) (Some (Time 10))]]
   \<and> (case sortByRecency_store
             [[analysis ''a'' ''optimization'' (JObj []) (Some (Time 5)),
               analysis ''m'' ''optimization'' (JObj []) None,
               analysis ''b'' ''optimization'' (JObj []) (Some (Time 10))]] 0 of
         (c, h') \<Rightarrow>
           c = 1 \<and>
           h' ! 0 = [analysis ''a'' ''optimization'' (JObj []) (Some (Time 5)),
                     analysis ''m'' ''optimization'' (JObj []) None,
                     analysis ''b'' ''optimization'' (JObj []) (Some (Time 10))] \<and>
           h' ! c = [analysis ''b'' ''optimization'' (JObj []) (Some (Time 10)),
                     analysis ''a'' ''optimization'' (JObj []) (Some (Time 5)),
                     analysis ''m'' ''optimization'' (JObj []) None] \<and>
           newestFirst (h' ! c))"
  using sortByRecency_sorted_permutation
    [of 0 "[[analysis ''a'' ''optimization'' (JObj []) (Some (Time 5)),
             analysis ''m'' ''optimization'' (JObj []) None,
             analysis ''b'' ''optimization'' (JObj []) (Some (Time 10))]]"]
  by (simp add: sortByRecency_store_def spread_def sort_in_place_def sortByRecency_def
      js_sort_def recencyCmp_def dateOrZero_def num_sub_def num_gt_def analysis_def)

subsection \<open>The rules of the extractors\<close>

text \<open>
  An extractor runs the callback of its \<^verbatim>\<open>forEach\<close> on each scanned analysis in turn
  (\<open>forEachE\<close>), so what it emits for one analysis is what the callback appends to
  \<open>recommendations\<close> when it is run on that analysis. The next lemma finds that run inside
  a run of the loop.
\<close>

lemma push_simps [simp]:
  "recommendations (push rt item st) = recommendations st @ [item (clock rt (reads st))]"
  "reads (push rt item st) = Suc (reads st)"
  by (simp_all add: push_def)

lemma forEachE_append:
  "forEachE f (xs @ ys) st = Option.bind (forEachE f xs st) (forEachE f ys)"
  by (induction xs arbitrary: st) (auto split: Option.bind_split)

lemma forEachE_member:
  assumes "r \<in> set xs" and "forEachE f xs st = Some st'"
  shows "\<exists>ys zs s1 s2. xs = ys @ r # zs \<and> forEachE f ys st = Some s1 \<and> f r s1 = Some s2
           \<and> forEachE f zs s2 = Some st'"
proof -
  from assms(1) obtain ys zs where xs: "xs = ys @ r # zs"
    by (auto simp: in_set_conv_decomp)
  with assms(2) obtain s1 where s1: "forEachE f ys st = Some s1"
    by (auto simp: forEachE_append split: Option.bind_splits)
  with assms(2) xs obtain s2 where "f r s1 = Some s2" "forEachE f zs s2 = Some st'"
    by (auto simp: forEachE_append split: Option.bind_splits)
  with xs s1 show ?thesis by blast
qed

lemma emitted_simps [simp]:
  "emitted st (Some st) = Some []"
  "emitted st (Some (push rt item st)) = Some [item (clock rt (reads st))]"
  "emitted st None = None"
  by (simp_all add: emitted_def)












subsection \<open>The chat extractor\<close>

lemma fold_emitCategory:
  "map (\<lambda>item. (facts item, ri_description item)) (recommendations (fold (emitCategory rt) cats st))
     = map (\<lambda>item. (facts item, ri_description item)) (recommendations st)
       @ map (\<lambda>(category, sentences). ((chatTitle category, 0.6, chatType category, Chat), hd sentences))
           (filter (\<lambda>(category, sentences). sentences \<noteq> []) cats)"
  by (induction cats arbitrary: st)
    (auto simp: emitCategory_def chatItem_def facts_def)

lemma map_fst_pushSentence [simp]: "map fst (pushSentence c s cats) = map fst cats"
  by (induction cats) (auto simp: pushSentence_def)

lemma map_fst_recordKeyword [simp]: "map fst (recordKeyword m e cats) = map fst cats"
  by (cases e) (simp add: recordKeyword_def Let_def)

lemma map_fst_fold_recordKeyword [simp]:
  "map fst (fold (recordKeyword m) es cats) = map fst cats"
  by (induction es arbitrary: cats) simp_all

lemma map_fst_fold_messages:
  "map fst (fold (\<lambda>message. fold (recordKeyword message) es) ms cats) = map fst cats"
  by (induction ms arbitrary: cats) simp_all

lemma map_fst_scanMessages:
  "map fst (scanMessages messages)
     = [''growth'', ''profit'', ''cost'', ''risk'', ''market'', ''seasonal'', ''resource'']"
  by (simp add: scanMessages_def map_fst_fold_messages emptyCategories_def)

text \<open>
  Claim C7: \<open>scanMessages\<close> is the object \<^verbatim>\<open>categories\<close> after the scan of the at most ten
  most recent assistant messages: the seven categories in their fixed order, each with
  the sentences recorded into it, in the order of recording. The chat extractor emits one
  item for each category whose bucket is non-empty, and none for the others, so at most
  seven; the item's title is the category's entry in the title table, its description is
  the first sentence of the bucket, its confidence is 0.60, its source is chat, and its
  type is business for growth, profit and risk, market for market and seasonal, and
  resource for resource and cost.
\<close>

theorem chat_one_item_per_category:
  "map (\<lambda>item. (facts item, ri_description item)) (fst (extractChatInsights rt messages k))
     = map (\<lambda>(category, sentences). ((chatTitle category, 0.6, chatType category, Chat), hd sentences))
         (filter (\<lambda>(category, sentences). sentences \<noteq> []) (scanMessages messages))
   \<and> map fst (scanMessages messages)
       = [''growth'', ''profit'', ''cost'', ''risk'', ''market'', ''seasonal'', ''resource'']
   \<and> length (fst (extractChatInsights rt messages k)) \<le> 7
   \<and> map chatTitle [''growth'', ''profit'', ''cost'', ''risk'', ''market'', ''seasonal'', ''resource'']
       = [''Growth Opportunity'', ''Profit Enhancement'', ''Cost Saving Opportunity'', ''Risk Management'',
          ''Market Intelligence'', ''Seasonal Planning'', ''Resource Optimization'']
   \<and> map chatType [''growth'', ''profit'', ''cost'', ''risk'', ''market'', ''seasonal'', ''resource'']
       = [Business, Business, Resource, Business, Market, Market, Resource]
   \<and> length (recentMessages messages) \<le> 10"
proof -
  let ?items = "fst (extractChatInsights rt messages k)"
  let ?view = "\<lambda>item. (facts item, ri_description item)"
  have items: "map ?view ?items
     = map (\<lambda>(category, sentences). ((chatTitle category, 0.6, chatType category, Chat), hd sentences))
         (filter (\<lambda>(category, sentences). sentences \<noteq> []) (scanMessages messages))"
    using fold_emitCategory [of rt "scanMessages messages" "\<lparr>recommendations = [], reads = k\<rparr>"]
    by (simp add: extractChatInsights_def Let_def)
  have "length ?items = length (map ?view ?items)" by simp
  also have "\<dots> \<le> length (scanMessages messages)"
    unfolding items by simp
  also have "\<dots> = length (map fst (scanMessages messages))" by simp
  also have "\<dots> = 7" unfolding map_fst_scanMessages by simp
  finally have len: "length ?items \<le> 7" .
  show ?thesis
    using items len
    by (simp add: map_fst_scanMessages chatTitle_def chatTitles_def chatType_def recentMessages_def)
qed

subsection \<open>The seasonal recommender and the empty inputs\<close>

lemma extract_nil [simp]:
  "extractBusinessRecommendations rt [] k = Some ([], k)"
  "extractForecastRecommendations rt [] k = Some ([], k)"
  "extractOptimizationRecommendations rt [] k = Some ([], k)"
  by (simp_all add: extractBusinessRecommendations_def extractForecastRecommendations_def
      extractOptimizationRecommendations_def recentBusinessResults_def recentForecasts_def
      recentOptimizations_def sortByRecency_def js_sort_def)

lemma chat_nil [simp]: "extractChatInsights rt [] k = ([], k)"
  by (simp add: extractChatInsights_def scanMessages_def recentMessages_def js_sort_def
      emptyCategories_def emitCategory_def)

lemma sortByRecency_nil [simp]: "sortByRecency [] = []"
  by (simp add: sortByRecency_def js_sort_def)

lemma capitalize_seasons [simp]:
  "capitalize ''spring'' = ''Spring''" "capitalize ''summer'' = ''Summer''"
  "capitalize ''fall'' = ''Fall''" "capitalize ''winter'' = ''Winter''"
  by (simp_all add: capitalize_def toUpperChar_def char_of_def bit_iff_odd)

lemma seasonal_fields [simp]:
  "ri_type (cropItem rt s k) = Crop" "ri_type (activityItem rt s k) = Business"
  "ri_title (cropItem rt s k) = capitalize (seasonName s) @ '' Crop Recommendations''"
  "ri_title (activityItem rt s k) = capitalize (seasonName s) @ '' Activity Focus''"
  by (simp_all add: cropItem_def activityItem_def)

lemma js_sort_two:
  "js_sort cmp [a, b] = (if num_gt (cmp a b) (Fin 0) then [b, a] else [a, b])"
  by (simp add: js_sort_def)

lemma winterInput_fields [simp]:
  "analysisResults winterInput = []" "chatHistory winterInput = []"
  "currentSeason winterInput = Some Winter" "userId winterInput = ''u1''"
  by (simp_all add: winterInput_def)

lemma winter_summary:
  "buildSummary winterInput [cropItem rt Winter k, activityItem rt Winter k'] =
     ''Based on your historical data, we recommend: Winter Activity Focus. Winter Crop Recommendations. Consider adjusting your strategy for the winter season.''"
  "buildSummary winterInput [activityItem rt Winter k', cropItem rt Winter k] =
     ''Based on your historical data, we recommend: Winter Activity Focus. Winter Crop Recommendations. Consider adjusting your strategy for the winter season.''"
  by (simp_all add: buildSummary_def titleOf_def)

lemma winter_scenario:
  "map_option (\<lambda>s. (mset (rs_recommendations s), rs_summary s))
       (generateRecommendations rt winterInput)
     = Some (mset (fst (addSeasonalRecommendations rt (Some Winter) 0)),
         ''Based on your historical data, we recommend: Winter Activity Focus. Winter Crop Recommendations. Consider adjusting your strategy for the winter season.'')"
  by (simp add: generateRecommendations_def addSeasonalRecommendations_def js_sort_two
      winter_summary Let_def)

text \<open>
  Claim C8, as stated, calls the seasonal recommender a pure function of the season tag.
  Each of its two items takes its \<^verbatim>\<open>id\<close> from \<^verbatim>\<open>Date.now()\<close> and its \<^verbatim>\<open>createdAt\<close> from
  \<^verbatim>\<open>new Date()\<close>, so two calls with the same tag at different moments return different
  items: with the sample clock, a call that makes the first reading of the run and a call
  that makes the second.
\<close>

theorem seasonal_reads_clock_counterexample:
  "map ri_createdAt (fst (addSeasonalRecommendations sampleRuntime (Some Winter) 0)) = [1001, 1003]
   \<and> map ri_createdAt (fst (addSeasonalRecommendations sampleRuntime (Some Winter) 1)) = [1002, 1004]
   \<and> fst (addSeasonalRecommendations sampleRuntime (Some Winter) 0)
     \<noteq> fst (addSeasonalRecommendations sampleRuntime (Some Winter) 1)"
  by (simp add: addSeasonalRecommendations_def cropItem_def activityItem_def sampleRuntime_def)

text \<open>
  Claim C8, amended: apart from the \<^verbatim>\<open>id\<close> and \<^verbatim>\<open>createdAt\<close> of its items, which are read
  from the clock, the seasonal recommender is a function of the optional season tag.
  Without a tag it emits nothing. With a tag it emits exactly two items, the first of type
  crop and the second of type business, both of confidence 0.70 and source seasonal,
  titled with the capitalized season name. For the input with the season winter and no
  analyses and no chat, whatever the clock and the calendar, the final set holds exactly
  those two items and the summary is the one below, which ends with "strategy for the
  winter season.".
\<close>

theorem seasonal_two_items:
  "addSeasonalRecommendations rt None k = ([], k)
   \<and> map facts (fst (addSeasonalRecommendations rt (Some s) k))
       = [(capitalize (seasonName s) @ '' Crop Recommendations'', 0.7, Crop, Seasonal),
          (capitalize (seasonName s) @ '' Activity Focus'', 0.7, Business, Seasonal)]
   \<and> map capitalize (map seasonName [Spring, Summer, Fall, Winter])
       = [''Spring'', ''Summer'', ''Fall'', ''Winter'']
   \<and> map timeless (fst (addSeasonalRecommendations rt c k))
       = map timeless (fst (addSeasonalRecommendations rt' c k'))
   \<and> map_option (\<lambda>s. (mset (rs_recommendations s), rs_summary s))
         (generateRecommendations rt winterInput)
       = Some (mset (fst (addSeasonalRecommendations rt (Some Winter) 0)),
           ''Based on your historical data, we recommend: Winter Activity Focus. Winter Crop Recommendations. Consider adjusting your strategy for the winter season.'')
   \<and> suffix ''strategy for the winter season.''
         ''Based on your historical data, we recommend: Winter Activity Focus. Winter Crop Recommendations. Consider adjusting your strategy for the winter season.''"
proof -
  have two: "map facts (fst (addSeasonalRecommendations rt (Some s) k))
       = [(capitalize (seasonName s) @ '' Crop Recommendations'', 0.7, Crop, Seasonal),
          (capitalize (seasonName s) @ '' Activity Focus'', 0.7, Business, Seasonal)]"
    by (simp add: addSeasonalRecommendations_def cropItem_def activityItem_def facts_def)
  have same: "map timeless (fst (addSeasonalRecommendations rt c k))
       = map timeless (fst (addSeasonalRecommendations rt' c k'))"
    by (cases c)
      (simp_all add: addSeasonalRecommendations_def cropItem_def activityItem_def timeless_def)
  have suff: "suffix ''strategy for the winter season.''
         ''Based on your historical data, we recommend: Winter Activity Focus. Winter Crop Recommendations. Consider adjusting your strategy for the winter season.''"
    by (rule suffixI [of _ "''Based on your historical data, we recommend: Winter Activity Focus. Winter Crop Recommendations. Consider adjusting your ''"])
      simp
  show ?thesis
    using two same suff winter_scenario [of rt]
    by (simp add: addSeasonalRecommendations_def)
qed

subsection \<open>The caps\<close>

lemma busy_returns:
  "\<exists>result. generateRecommendations sampleRuntime busyInput = Some result
     \<and> length (rs_recommendations result) = 10"
proof -
  have "map_option (\<lambda>s. length (rs_recommendations s)) (generateRecommendations sampleRuntime busyInput)
          = Some 10"
    by code_simp
  then show ?thesis by auto
qed



subsection \<open>Item ids\<close>

lemmas prefixes_defs = bizPrefixes_def forecastPrefixes_def optPrefixes_def chatPrefixes_def
  seasonalPrefixes_def

lemma prefixFree_idPrefixes: "prefixFree (set idPrefixes)"
  unfolding prefixFree_def idPrefixes_def prefixes_defs
  by (intro ballI allI impI) (simp, elim disjE; simp)

lemma prefixes_subset:
  "set bizPrefixes \<subseteq> set idPrefixes" "set forecastPrefixes \<subseteq> set idPrefixes"
  "set optPrefixes \<subseteq> set idPrefixes" "set chatPrefixes \<subseteq> set idPrefixes"
  "set seasonalPrefixes \<subseteq> set idPrefixes"
  by (auto simp: idPrefixes_def)

lemma prefixes_disjoint:
  "set chatPrefixes \<inter> set seasonalPrefixes = {}"
  "set optPrefixes \<inter> (set chatPrefixes \<union> set seasonalPrefixes) = {}"
  "set forecastPrefixes \<inter> (set optPrefixes \<union> (set chatPrefixes \<union> set seasonalPrefixes)) = {}"
  "set bizPrefixes \<inter> (set forecastPrefixes \<union> (set optPrefixes
      \<union> (set chatPrefixes \<union> set seasonalPrefixes))) = {}"
  by (simp_all add: prefixes_defs)

lemma prefixFree_subset: "prefixFree P \<Longrightarrow> Q \<subseteq> P \<Longrightarrow> prefixFree Q"
  unfolding prefixFree_def by blast

lemma tagged_Nil [simp]: "tagged P X []"
  by (simp add: tagged_def)

lemma tagged_single [simp]: "tagged P X [item] \<longleftrightarrow> (\<exists>p \<in> P. \<exists>x \<in> X. ri_id item = p @ x)"
  by (simp add: tagged_def)

lemma tagged_mono: "tagged P X items \<Longrightarrow> P \<subseteq> P' \<Longrightarrow> X \<subseteq> X' \<Longrightarrow> tagged P' X' items"
  unfolding tagged_def by blast

lemma tagged_distinct: "tagged P X items \<Longrightarrow> distinct (map ri_id items)"
  by (simp add: tagged_def)

lemma tagged_append:
  assumes a: "tagged P X as" and b: "tagged Q Y bs"
    and pf: "prefixFree (P \<union> Q)"
    and disj: "P \<inter> Q = {} \<or> X \<inter> Y = {}"
  shows "tagged (P \<union> Q) (X \<union> Y) (as @ bs)"
proof -
  have "ri_id i \<noteq> ri_id j" if i: "i \<in> set as" and j: "j \<in> set bs" for i j
  proof
    assume eq: "ri_id i = ri_id j"
    from a i obtain p x where p: "p \<in> P" "x \<in> X" "ri_id i = p @ x"
      unfolding tagged_def by blast
    from b j obtain q y where q: "q \<in> Q" "y \<in> Y" "ri_id j = q @ y"
      unfolding tagged_def by blast
    from eq p q have pq: "p @ x = q @ y" by simp
    with pf p(1) q(1) have "p = q" unfolding prefixFree_def by blast
    with pq have "x = y" by simp
    with \<open>p = q\<close> p q disj show False by blast
  qed
  then have "set (map ri_id as) \<inter> set (map ri_id bs) = {}" by auto
  with a b have d: "distinct (map ri_id (as @ bs))" unfolding tagged_def by simp
  have "\<exists>p \<in> P \<union> Q. \<exists>x \<in> X \<union> Y. ri_id item = p @ x" if "item \<in> set (as @ bs)" for item
    using that a b unfolding tagged_def by (simp only: set_append Un_iff) blast
  with d show ?thesis unfolding tagged_def by blast
qed

lemma emits_seq:
  assumes f: "emits P f" and g: "emits Q g"
    and pf: "prefixFree (P \<union> Q)" and disj: "P \<inter> Q = {}"
  shows "emits (P \<union> Q) (\<lambda>r st. Option.bind (f r st) (g r))"
  unfolding emits_def
proof (intro allI impI)
  fix r st st'
  assume "Option.bind (f r st) (g r) = Some st'"
  then obtain s1 where s1: "f r st = Some s1" and s2: "g r s1 = Some st'"
    by (auto split: Option.bind_splits)
  from f s1 obtain n1 where n1: "recommendations s1 = recommendations st @ n1" "tagged P {ar_id r} n1"
    unfolding emits_def by blast
  from g s2 obtain n2 where n2: "recommendations st' = recommendations s1 @ n2" "tagged Q {ar_id r} n2"
    unfolding emits_def by blast
  have "tagged (P \<union> Q) ({ar_id r} \<union> {ar_id r}) (n1 @ n2)"
    using n1(2) n2(2) pf disj by (intro tagged_append) auto
  with n1 n2 show "\<exists>new. recommendations st' = recommendations st @ new \<and> tagged (P \<union> Q) {ar_id r} new"
    by auto
qed

lemma emits_mono: "emits P f \<Longrightarrow> P \<subseteq> Q \<Longrightarrow> emits Q f"
  unfolding emits_def by (meson order_refl tagged_mono)

lemma emits_forEachE:
  assumes f: "emits P f" and pf: "prefixFree P"
  shows "distinct (map ar_id rs) \<Longrightarrow> forEachE f rs st = Some st' \<Longrightarrow>
         \<exists>new. recommendations st' = recommendations st @ new \<and> tagged P (ar_id ` set rs) new"
proof (induction rs arbitrary: st)
  case Nil
  then show ?case by simp
next
  case (Cons r rs)
  from Cons.prems(2) obtain s1 where s1: "f r st = Some s1" and s2: "forEachE f rs s1 = Some st'"
    by (auto split: Option.bind_splits)
  from f s1 obtain n1 where n1: "recommendations s1 = recommendations st @ n1" "tagged P {ar_id r} n1"
    unfolding emits_def by blast
  from Cons.IH [OF _ s2] Cons.prems(1) obtain n2
    where n2: "recommendations st' = recommendations s1 @ n2" "tagged P (ar_id ` set rs) n2"
    by auto
  have "tagged (P \<union> P) ({ar_id r} \<union> ar_id ` set rs) (n1 @ n2)"
    using n1(2) n2(2) pf Cons.prems(1) by (intro tagged_append) auto
  with n1 n2 show ?case by auto
qed

lemma emits_rules:
  "emits {''biz-profit-''} (profitRule rt)"
  "emits {''biz-roi-''} (roiRule rt)"
  "emits {''biz-cost-''} (costRule rt)"
  "emits {''biz-breakeven-''} (breakEvenRule rt)"
  "emits {''forecast-growth-'', ''forecast-decline-''} (trendRule rt)"
  "emits {''forecast-seasonal-''} (seasonalityRule rt)"
  "emits {''forecast-accuracy-'', ''forecast-inaccuracy-''} (accuracyRule rt)"
  "emits {''opt-feasible-''} (feasibleRule rt)"
  "emits {''opt-resources-''} (variablesRule rt)"
  "emits {''opt-constraints-''} (constraintsRule rt)"
  "emits {''opt-infeasible-''} (infeasibleRule rt)"
  unfolding emits_def profitRule_def roiRule_def costRule_def breakEvenRule_def trendRule_def
    seasonalityRule_def accuracyRule_def feasibleRule_def variablesRule_def constraintsRule_def
    infeasibleRule_def
  by (auto simp: push_def Let_def split: Option.bind_splits if_splits list.splits)


lemma prefixFree_ids: "P \<subseteq> set idPrefixes \<Longrightarrow> prefixFree P"
  using prefixFree_idPrefixes prefixFree_subset by blast

lemma emits_businessBody:
  "emits (set bizPrefixes) (businessBody rt)"
proof -
  have 1: "emits ({''biz-cost-''} \<union> {''biz-breakeven-''})
             (\<lambda>r st. Option.bind (costRule rt r st) (breakEvenRule rt r))"
    by (intro emits_seq emits_rules prefixFree_ids) (simp_all add: idPrefixes_def prefixes_defs)
  have 2: "emits ({''biz-roi-''} \<union> ({''biz-cost-''} \<union> {''biz-breakeven-''}))
             (\<lambda>r st. Option.bind (roiRule rt r st)
                (\<lambda>s. Option.bind (costRule rt r s) (breakEvenRule rt r)))"
    by (intro emits_seq [OF _ 1] emits_rules prefixFree_ids) (simp_all add: idPrefixes_def prefixes_defs)
  have 3: "emits ({''biz-profit-''} \<union> ({''biz-roi-''} \<union> ({''biz-cost-''} \<union> {''biz-breakeven-''})))
             (\<lambda>r st. Option.bind (profitRule rt r st)
                (\<lambda>s. Option.bind (roiRule rt r s)
                  (\<lambda>s. Option.bind (costRule rt r s) (breakEvenRule rt r))))"
    by (intro emits_seq [OF _ 2] emits_rules prefixFree_ids) (simp_all add: idPrefixes_def prefixes_defs)
  have eq: "businessBody rt = (\<lambda>r st. Option.bind (profitRule rt r st)
                (\<lambda>s. Option.bind (roiRule rt r s)
                  (\<lambda>s. Option.bind (costRule rt r s) (breakEvenRule rt r))))"
    by (intro ext) (simp add: businessBody_def)
  show ?thesis unfolding eq by (rule emits_mono [OF 3]) (simp add: prefixes_defs)
qed

lemma emits_forecastBody:
  "emits (set forecastPrefixes) (forecastBody rt)"
proof -
  have 1: "emits ({''forecast-seasonal-''} \<union> {''forecast-accuracy-'', ''forecast-inaccuracy-''})
             (\<lambda>r st. Option.bind (seasonalityRule rt r st) (accuracyRule rt r))"
    by (intro emits_seq emits_rules prefixFree_ids) (simp_all add: idPrefixes_def prefixes_defs)
  have 2: "emits ({''forecast-growth-'', ''forecast-decline-''}
                  \<union> ({''forecast-seasonal-''} \<union> {''forecast-accuracy-'', ''forecast-inaccuracy-''}))
             (\<lambda>r st. Option.bind (trendRule rt r st)
                (\<lambda>s. Option.bind (seasonalityRule rt r s) (accuracyRule rt r)))"
    by (intro emits_seq [OF _ 1] emits_rules prefixFree_ids) (simp_all add: idPrefixes_def prefixes_defs)
  have eq: "forecastBody rt = (\<lambda>r st. Option.bind (trendRule rt r st)
                (\<lambda>s. Option.bind (seasonalityRule rt r s) (accuracyRule rt r)))"
    by (intro ext) (simp add: forecastBody_def)
  show ?thesis unfolding eq by (rule emits_mono [OF 2]) (simp add: prefixes_defs)
qed

lemma emits_optimizationBody:
  "emits (set optPrefixes) (optimizationBody rt)"
proof -
  let ?P = "set optPrefixes"
  have 1: "emits ({''opt-resources-''} \<union> {''opt-constraints-''})
             (\<lambda>r st. Option.bind (variablesRule rt r st) (constraintsRule rt r))"
    by (intro emits_seq emits_rules prefixFree_ids) (simp_all add: idPrefixes_def prefixes_defs)
  have 2: "emits ({''opt-feasible-''} \<union> ({''opt-resources-''} \<union> {''opt-constraints-''}))
             (\<lambda>r st. Option.bind (feasibleRule rt r st)
                (\<lambda>s. Option.bind (variablesRule rt r s) (constraintsRule rt r)))"
    by (intro emits_seq [OF _ 1] emits_rules prefixFree_ids) (simp_all add: idPrefixes_def prefixes_defs)
  have yes: "emits ?P (\<lambda>r st. Option.bind (feasibleRule rt r st)
                (\<lambda>s. Option.bind (variablesRule rt r s) (constraintsRule rt r)))"
    by (rule emits_mono [OF 2]) (simp add: prefixes_defs)
  have no: "emits ?P (infeasibleRule rt)"
    by (rule emits_mono [OF emits_rules(11)]) (simp add: prefixes_defs)
  show ?thesis
    unfolding emits_def
  proof (intro allI impI)
    fix r st st'
    assume run: "optimizationBody rt r st = Some st'"
    have "getp (ar_data r) ''feasible'' \<noteq> None"
      using run by (cases "getp (ar_data r) ''feasible''") (simp_all add: optimizationBody_def)
    then obtain feasible where feasible: "getp (ar_data r) ''feasible'' = Some feasible"
      by blast
    have body: "optimizationBody rt r st =
        (if feasible = JBool True
         then Option.bind (feasibleRule rt r st)
                (\<lambda>s. Option.bind (variablesRule rt r s) (constraintsRule rt r))
         else if feasible = JBool False then infeasibleRule rt r st else Some st)"
      by (simp add: optimizationBody_def feasible)
    consider
        "Option.bind (feasibleRule rt r st)
           (\<lambda>s. Option.bind (variablesRule rt r s) (constraintsRule rt r)) = Some st'"
      | "infeasibleRule rt r st = Some st'" | "st' = st"
      using run unfolding body by (cases "feasible = JBool True"; cases "feasible = JBool False") simp_all
    then show "\<exists>new. recommendations st' = recommendations st @ new \<and> tagged ?P {ar_id r} new"
    proof cases
      case 1
      with yes show ?thesis unfolding emits_def by blast
    next
      case 2
      with no show ?thesis unfolding emits_def by blast
    next
      case 3
      then show ?thesis by simp
    qed
  qed
qed


lemma distinct_map_take: "distinct (map f xs) \<Longrightarrow> distinct (map f (take n xs))"
  by (simp add: take_map [symmetric] distinct_take)

lemma distinct_recent:
  assumes "distinct (map ar_id results)"
  shows "distinct (map ar_id (take n (sortByRecency (filter P results))))"
  using assms by (simp add: distinct_map_take sortByRecency_def distinct_js_sort distinct_map_filter)

lemma tagged_forEachE_fresh:
  assumes "emits P f" and "P \<subseteq> set idPrefixes" and "distinct (map ar_id rs)"
    and "forEachE f rs \<lparr>recommendations = [], reads = k\<rparr> = Some st"
  shows "tagged P UNIV (recommendations st)"
proof -
  from emits_forEachE [OF assms(1) prefixFree_ids [OF assms(2)] assms(3) assms(4)]
  obtain new where "recommendations st = [] @ new" "tagged P (ar_id ` set rs) new"
    by auto
  then show ?thesis by (auto intro: tagged_mono)
qed

lemma tagged_extractors:
  assumes d: "distinct (map ar_id results)"
  shows "extractBusinessRecommendations rt results k = Some (items, k') \<Longrightarrow>
           tagged (set bizPrefixes) UNIV items"
    and "extractForecastRecommendations rt results k = Some (items, k') \<Longrightarrow>
           tagged (set forecastPrefixes) UNIV items"
    and "extractOptimizationRecommendations rt results k = Some (items, k') \<Longrightarrow>
           tagged (set optPrefixes) UNIV items"
proof -
  show "tagged (set bizPrefixes) UNIV items"
    if "extractBusinessRecommendations rt results k = Some (items, k')"
  proof -
    from that obtain st where
      "forEachE (businessBody rt) (recentBusinessResults results) \<lparr>recommendations = [], reads = k\<rparr> = Some st"
      and "items = recommendations st"
      by (auto simp: extractBusinessRecommendations_def split: Option.bind_splits)
    then show ?thesis
      using tagged_forEachE_fresh [OF emits_businessBody prefixes_subset(1), of "recentBusinessResults results"]
        distinct_recent [OF d]
      by (simp add: recentBusinessResults_def)
  qed
  show "tagged (set forecastPrefixes) UNIV items"
    if "extractForecastRecommendations rt results k = Some (items, k')"
  proof -
    from that obtain st where
      "forEachE (forecastBody rt) (recentForecasts results) \<lparr>recommendations = [], reads = k\<rparr> = Some st"
      and "items = recommendations st"
      by (auto simp: extractForecastRecommendations_def split: Option.bind_splits)
    then show ?thesis
      using tagged_forEachE_fresh [OF emits_forecastBody prefixes_subset(2), of "recentForecasts results"]
        distinct_recent [OF d]
      by (simp add: recentForecasts_def)
  qed
  show "tagged (set optPrefixes) UNIV items"
    if "extractOptimizationRecommendations rt results k = Some (items, k')"
  proof -
    from that obtain st where
      "forEachE (optimizationBody rt) (recentOptimizations results) \<lparr>recommendations = [], reads = k\<rparr> = Some st"
      and "items = recommendations st"
      by (auto simp: extractOptimizationRecommendations_def split: Option.bind_splits)
    then show ?thesis
      using tagged_forEachE_fresh [OF emits_optimizationBody prefixes_subset(3), of "recentOptimizations results"]
        distinct_recent [OF d]
      by (simp add: recentOptimizations_def)
  qed
qed

lemma chat_prefix_mem:
  "c \<in> set [''growth'', ''profit'', ''cost'', ''risk'', ''market'', ''seasonal'', ''resource'']
     \<Longrightarrow> ''chat-'' @ c @ ''-'' \<in> set chatPrefixes"
  by (auto simp: chatPrefixes_def)

lemma tagged_emitCategory:
  assumes "distinct (map fst cats)"
    and "set (map fst cats)
           \<subseteq> set [''growth'', ''profit'', ''cost'', ''risk'', ''market'', ''seasonal'', ''resource'']"
  shows "\<exists>new. recommendations (fold (emitCategory rt) cats st) = recommendations st @ new
           \<and> tagged ((\<lambda>c. ''chat-'' @ c @ ''-'') ` set (map fst cats)) UNIV new"
  using assms
proof (induction cats arbitrary: st)
  case Nil
  then show ?case by simp
next
  case (Cons entry cats)
  obtain c sentences where entry: "entry = (c, sentences)" by (cases entry)
  let ?st1 = "emitCategory rt entry st"
  let ?chat = "\<lambda>c. ''chat-'' @ c @ ''-''"
  have names: "?chat ` set (map fst (entry # cats)) \<subseteq> set idPrefixes"
  proof
    fix p
    assume "p \<in> ?chat ` set (map fst (entry # cats))"
    then obtain c' where c': "c' \<in> set (map fst (entry # cats))" "p = ?chat c'"
      by blast
    with Cons.prems(2)
    have "c' \<in> set [''growth'', ''profit'', ''cost'', ''risk'', ''market'', ''seasonal'', ''resource'']"
      by blast
    then show "p \<in> set idPrefixes"
      using chat_prefix_mem prefixes_subset(4) c'(2) by blast
  qed
  obtain n1 where n1: "recommendations ?st1 = recommendations st @ n1" "tagged {?chat c} UNIV n1"
  proof (cases "sentences = []")
    case True
    then have "recommendations ?st1 = recommendations st @ []" "tagged {?chat c} UNIV []"
      by (simp_all add: emitCategory_def entry)
    then show ?thesis by (rule that)
  next
    case False
    then have "recommendations ?st1 = recommendations st @ [chatItem rt c sentences (reads st)]"
      "tagged {?chat c} UNIV [chatItem rt c sentences (reads st)]"
      by (simp_all add: emitCategory_def entry chatItem_def)
    then show ?thesis by (rule that)
  qed
  from Cons.IH [of ?st1] Cons.prems obtain n2
    where n2: "recommendations (fold (emitCategory rt) cats ?st1) = recommendations ?st1 @ n2"
      "tagged (?chat ` set (map fst cats)) UNIV n2"
    by auto
  have "c \<notin> set (map fst cats)" using Cons.prems(1) entry by simp
  then have disj: "{?chat c} \<inter> ?chat ` set (map fst cats) = {}" by auto
  have "tagged ({?chat c} \<union> ?chat ` set (map fst cats)) (UNIV \<union> UNIV) (n1 @ n2)"
    using n1(2) n2(2) disj names
    by (intro tagged_append prefixFree_ids) (auto simp: entry)
  with n1 n2 show ?case by (auto simp: entry)
qed

lemma tagged_chat:
  "tagged (set chatPrefixes) UNIV (fst (extractChatInsights rt messages k))"
proof -
  from tagged_emitCategory [of "scanMessages messages" rt "\<lparr>recommendations = [], reads = k\<rparr>"]
  have "tagged ((\<lambda>c. ''chat-'' @ c @ ''-'') ` set (map fst (scanMessages messages))) UNIV
          (fst (extractChatInsights rt messages k))"
    by (simp add: map_fst_scanMessages extractChatInsights_def Let_def)
  then show ?thesis
    unfolding map_fst_scanMessages by (rule tagged_mono) (simp_all add: chatPrefixes_def)
qed

lemma tagged_seasonal:
  "tagged (set seasonalPrefixes) UNIV (fst (addSeasonalRecommendations rt c k))"
  by (cases c)
    (simp_all add: addSeasonalRecommendations_def tagged_def cropItem_def activityItem_def
      seasonalPrefixes_def)

lemma prefixFree_unions:
  "prefixFree (set chatPrefixes \<union> set seasonalPrefixes)"
  "prefixFree (set optPrefixes \<union> (set chatPrefixes \<union> set seasonalPrefixes))"
  "prefixFree (set forecastPrefixes \<union> (set optPrefixes \<union> (set chatPrefixes \<union> set seasonalPrefixes)))"
  "prefixFree (set bizPrefixes \<union> (set forecastPrefixes \<union> (set optPrefixes
      \<union> (set chatPrefixes \<union> set seasonalPrefixes))))"
  using prefixes_subset by (intro prefixFree_ids; blast)+

text \<open>
  Claim C10: when the analysis results of the input have pairwise distinct ids, the ids of
  the items of the returned set are pairwise distinct. An id is a prefix that names the
  rule (or the chat category, or the seasonal slot) followed by the id of the source
  analysis or by a clock reading; no prefix is the beginning of another, each rule emits
  at most one item for an analysis, each category and each slot at most one item, and the
  final sorts and the cut to ten items keep distinct ids distinct.
\<close>

theorem item_ids_distinct:
  assumes "distinct (map ar_id (analysisResults input))"
    and "generateRecommendations rt input = Some result"
  shows "distinct (map ri_id (rs_recommendations result))"
proof -
  let ?sorted = "take 10 (sortByRecency (analysisResults input))"
  have d: "distinct (map ar_id ?sorted)"
    using assms(1) by (simp add: distinct_map_take sortByRecency_def distinct_js_sort)
  from assms(2) obtain b k1 f k2 ob k3 where
    b: "extractBusinessRecommendations rt ?sorted 0 = Some (b, k1)" and
    f: "extractForecastRecommendations rt ?sorted k1 = Some (f, k2)" and
    ob: "extractOptimizationRecommendations rt ?sorted k2 = Some (ob, k3)" and
    recs: "rs_recommendations result = take 10 (js_sort (sameDayCmp rt) (js_sort createdAtCmp
        (b @ f @ ob @ fst (extractChatInsights rt (chatHistory input) k3)
           @ fst (addSeasonalRecommendations rt (currentSeason input)
                    (snd (extractChatInsights rt (chatHistory input) k3))))))"
    by (auto simp: generateRecommendations_def Let_def split: Option.bind_splits prod.splits)
  let ?c = "fst (extractChatInsights rt (chatHistory input) k3)"
  let ?s = "fst (addSeasonalRecommendations rt (currentSeason input)
                    (snd (extractChatInsights rt (chatHistory input) k3)))"
  note tb = tagged_extractors(1) [OF d b] and tf = tagged_extractors(2) [OF d f]
    and to = tagged_extractors(3) [OF d ob]
  note cs = tagged_append [OF tagged_chat tagged_seasonal prefixFree_unions(1)
      disjI1 [OF prefixes_disjoint(1)], of rt "chatHistory input" k3 rt "currentSeason input"
        "snd (extractChatInsights rt (chatHistory input) k3)"]
  note ocs = tagged_append [OF to cs prefixFree_unions(2) disjI1 [OF prefixes_disjoint(2)]]
  note focs = tagged_append [OF tf ocs prefixFree_unions(3) disjI1 [OF prefixes_disjoint(3)]]
  note all = tagged_append [OF tb focs prefixFree_unions(4) disjI1 [OF prefixes_disjoint(4)]]
  from all have "distinct (map ri_id (b @ f @ ob @ ?c @ ?s))"
    by (rule tagged_distinct)
  then show ?thesis
    unfolding recs by (intro distinct_map_take) (simp add: distinct_js_sort)
qed


theorem item_ids_distinct_witness:
  "distinct (map ar_id (analysisResults busyInput))
   \<and> (\<exists>result. generateRecommendations sampleRuntime busyInput = Some result
         \<and> length (rs_recommendations result) = 10
         \<and> distinct (map ri_id (rs_recommendations result)))"
proof -
  have d: "distinct (map ar_id (analysisResults busyInput))"
    by (simp add: busyInput_def analysis_def)
  from busy_returns obtain result where r: "generateRecommendations sampleRuntime busyInput = Some result"
    "length (rs_recommendations result) = 10"
    by blast
  from item_ids_distinct [OF d r(1)] d r show ?thesis by blast
qed

subsection \<open>Totality\<close>

lemma getp_field: "v \<noteq> JUndefined \<Longrightarrow> v \<noteq> JNull \<Longrightarrow> getp v p = Some (field v p)"
  by (cases v) (simp_all add: field_def)

lemma truthy_nonnull: "truthy v \<Longrightarrow> v \<noteq> JUndefined \<and> v \<noteq> JNull"
  by (cases v) simp_all

lemma mapE_total:
  "(\<And>x. x \<in> set xs \<Longrightarrow> f x \<noteq> None) \<Longrightarrow> mapE f xs \<noteq> None"
  by (induction xs) (auto split: Option.bind_splits)

lemma filterE_total:
  "(\<And>x. x \<in> set xs \<Longrightarrow> f x \<noteq> None) \<Longrightarrow> filterE f xs \<noteq> None"
  by (induction xs) (auto split: Option.bind_splits)

lemma filterE_set:
  "filterE f xs = Some ys \<Longrightarrow> set ys \<subseteq> set xs \<and> (\<forall>y \<in> set ys. f y = Some True)"
  by (induction xs arbitrary: ys) (auto split: Option.bind_splits if_splits)

lemma reduceE_total:
  "(\<And>x a. x \<in> set xs \<Longrightarrow> f a x \<noteq> None) \<Longrightarrow> reduceE f xs acc \<noteq> None"
  by (induction xs arbitrary: acc) (auto split: Option.bind_splits)

lemma forEachE_total:
  "(\<And>x s. x \<in> set xs \<Longrightarrow> f x s \<noteq> None) \<Longrightarrow> forEachE f xs st \<noteq> None"
  by (induction xs arbitrary: st) (auto split: Option.bind_splits)

lemma insertByE_set: "insertByE cmp x ys = Some zs \<Longrightarrow> set zs = insert x (set ys)"
proof (induction ys arbitrary: zs)
  case Nil
  then show ?case by auto
next
  case (Cons y ys)
  from Cons.prems obtain c where c: "cmp x y = Some c"
    by (cases "cmp x y") simp_all
  show ?case
  proof (cases "num_gt c (Fin 0)")
    case True
    with Cons.prems c obtain r where r: "insertByE cmp x ys = Some r" and zs: "zs = y # r"
      by (cases "insertByE cmp x ys") simp_all
    from Cons.IH [OF r] zs show ?thesis by auto
  next
    case False
    with Cons.prems c show ?thesis by auto
  qed
qed

lemma insertByE_total:
  "(\<And>y. y \<in> set ys \<Longrightarrow> cmp x y \<noteq> None) \<Longrightarrow> insertByE cmp x ys \<noteq> None"
proof (induction ys)
  case Nil
  then show ?case by simp
next
  case (Cons y ys)
  then obtain c where c: "cmp x y = Some c" by fastforce
  from Cons have "insertByE cmp x ys \<noteq> None" by simp
  with c show ?case by (cases "insertByE cmp x ys") simp_all
qed

lemma js_sortE_set: "js_sortE cmp xs = Some ys \<Longrightarrow> set ys = set xs"
proof (induction xs arbitrary: ys)
  case Nil
  then show ?case by simp
next
  case (Cons x xs)
  from Cons.prems obtain s where s: "js_sortE cmp xs = Some s" and ys: "insertByE cmp x s = Some ys"
    by (cases "js_sortE cmp xs") simp_all
  from Cons.IH [OF s] insertByE_set [OF ys] show ?case by simp
qed

lemma js_sortE_total:
  "(\<And>x y. x \<in> set xs \<Longrightarrow> y \<in> set xs \<Longrightarrow> cmp x y \<noteq> None) \<Longrightarrow> js_sortE cmp xs \<noteq> None"
proof (induction xs)
  case Nil
  then show ?case by simp
next
  case (Cons x xs)
  have "js_sortE cmp xs \<noteq> None" by (rule Cons.IH) (use Cons.prems in auto)
  then obtain ys where ys: "js_sortE cmp xs = Some ys" by blast
  then have "set ys = set xs" by (rule js_sortE_set)
  with Cons.prems have "insertByE cmp x ys \<noteq> None"
    by (intro insertByE_total) auto
  with ys show ?case by simp
qed

lemma noNull_getp:
  "noNullElements v \<Longrightarrow> e \<in> set (elems v) \<Longrightarrow> getp e p = Some (field e p)"
  by (auto simp: noNullElements_def list_all_iff intro: getp_field)

lemma total_profit: "ar_data r \<noteq> JUndefined \<Longrightarrow> ar_data r \<noteq> JNull \<Longrightarrow> profitRule rt r st \<noteq> None"
  by (simp add: profitRule_def getp_field)

lemma total_roi: "ar_data r \<noteq> JUndefined \<Longrightarrow> ar_data r \<noteq> JNull \<Longrightarrow> roiRule rt r st \<noteq> None"
  by (simp add: roiRule_def getp_field)

lemma total_breakEven:
  "ar_data r \<noteq> JUndefined \<Longrightarrow> ar_data r \<noteq> JNull \<Longrightarrow> breakEvenRule rt r st \<noteq> None"
  by (simp add: breakEvenRule_def getp_field Let_def)

lemma total_cost:
  assumes "ar_data r \<noteq> JUndefined" "ar_data r \<noteq> JNull"
    and nn: "noNullElements (field (ar_data r) ''operationalCosts'')"
  shows "costRule rt r st \<noteq> None"
proof -
  let ?oc = "field (ar_data r) ''operationalCosts''"
  have "js_sortE (amountCmp rt) (elems ?oc) \<noteq> None"
    by (rule js_sortE_total) (simp add: amountCmp_def noNull_getp [OF nn])
  then obtain sorted where sorted: "js_sortE (amountCmp rt) (elems ?oc) = Some sorted"
    by blast
  then have set: "set sorted = set (elems ?oc)" by (rule js_sortE_set)
  have red: "reduceE (\<lambda>sum cost. Option.bind (getp cost ''amount'') (\<lambda>amount. Some (js_add rt sum amount)))
               sorted acc \<noteq> None" for acc
    by (rule reduceE_total) (simp add: set noNull_getp [OF nn])
  show ?thesis
  proof (cases sorted)
    case Nil
    with sorted assms(1,2) show ?thesis by (simp add: costRule_def getp_field)
  next
    case (Cons highest rest)
    then have "highest \<in> set (elems ?oc)" using set by auto
    then have h: "getp highest p = Some (field highest p)" for p
      by (rule noNull_getp [OF nn])
    from red [of "JNum (Fin 0)"] obtain total where
      "reduceE (\<lambda>sum cost. Option.bind (getp cost ''amount'') (\<lambda>amount. Some (js_add rt sum amount)))
               sorted (JNum (Fin 0)) = Some total"
      by blast
    with sorted Cons assms(1,2) h show ?thesis
      by (simp add: costRule_def getp_field Let_def)
  qed
qed


lemma total_trend:
  assumes "ar_data r \<noteq> JUndefined" "ar_data r \<noteq> JNull"
    and nn: "noNullElements (field (ar_data r) ''forecasted'')"
  shows "trendRule rt r st \<noteq> None"
proof -
  let ?fs = "elems (field (ar_data r) ''forecasted'')"
  have "getp (?fs ! 0) p = Some (field (?fs ! 0) p)
      \<and> getp (?fs ! (length ?fs - Suc 0)) p = Some (field (?fs ! (length ?fs - Suc 0)) p)"
    if "Suc 0 < length ?fs" for p
    using that by (intro conjI noNull_getp [OF nn] nth_mem) auto
  then show ?thesis
    using assms(1,2) by (simp add: trendRule_def getp_field Let_def)
qed

lemma total_seasonality:
  assumes "ar_data r \<noteq> JUndefined" "ar_data r \<noteq> JNull"
    and nn: "noNullElements (field (field (ar_data r) ''chart'') ''historical'')"
  shows "seasonalityRule rt r st \<noteq> None"
proof -
  let ?h = "field (field (ar_data r) ''chart'') ''historical''"
  have "mapE (\<lambda>h. getp h ''value'') (elems ?h) \<noteq> None"
    by (rule mapE_total) (simp add: noNull_getp [OF nn])
  then show ?thesis
    using assms(1,2)
    by (auto simp: seasonalityRule_def getp_field truthy_nonnull Let_def)
qed

lemma toFixed_number:
  "numberOrAbsent v \<Longrightarrow> truthy v \<Longrightarrow> callToFixed rt v d = Some (toFixed rt (toNum rt v) d)"
  by (cases v) simp_all

lemma total_accuracy:
  assumes "ar_data r \<noteq> JUndefined" "ar_data r \<noteq> JNull"
    and num: "numberOrAbsent (field (field (ar_data r) ''accuracy'') ''mape'')"
  shows "accuracyRule rt r st \<noteq> None"
  using assms
  by (simp add: accuracyRule_def getp_field truthy_nonnull toFixed_number [OF num])

lemma total_feasible:
  assumes "ar_data r \<noteq> JUndefined" "ar_data r \<noteq> JNull"
    and num: "numberOrAbsent (field (ar_data r) ''objectiveValue'')"
  shows "feasibleRule rt r st \<noteq> None"
  using assms
  by (simp add: feasibleRule_def getp_field toFixed_number [OF num])

lemma total_infeasible:
  "ar_data r \<noteq> JUndefined \<Longrightarrow> ar_data r \<noteq> JNull \<Longrightarrow> infeasibleRule rt r st \<noteq> None"
  by (simp add: infeasibleRule_def getp_field)

lemma positive_number:
  "numberOrAbsent v \<Longrightarrow> num_gt (toNum rt v) (Fin 0) \<Longrightarrow>
     callToFixed rt v d = Some (toFixed rt (toNum rt v) d)"
  by (cases v) (simp_all add: num_gt_def)

lemma total_variables:
  assumes "ar_data r \<noteq> JUndefined" "ar_data r \<noteq> JNull"
    and nn: "noNullElements (field (ar_data r) ''variables'')"
    and num: "list_all (\<lambda>v. numberOrAbsent (field v ''value'')) (elems (field (ar_data r) ''variables''))"
  shows "variablesRule rt r st \<noteq> None"
proof -
  let ?vs = "elems (field (ar_data r) ''variables'')"
  let ?pos = "\<lambda>v. Option.bind (getp v ''value'') (\<lambda>x. Some (num_gt (toNum rt x) (Fin 0)))"
  have "filterE ?pos ?vs \<noteq> None"
    by (rule filterE_total) (simp add: noNull_getp [OF nn])
  then obtain positive where positive: "filterE ?pos ?vs = Some positive" by blast
  from filterE_set [OF positive]
  have sub: "set positive \<subseteq> set ?vs" and pos: "\<forall>v \<in> set positive. ?pos v = Some True"
    by auto
  have read: "getp v p = Some (field v p)" if "v \<in> set positive" for v p
    using that sub by (intro noNull_getp [OF nn]) blast
  have "js_sortE (valueCmp rt) positive \<noteq> None"
    by (rule js_sortE_total) (simp add: valueCmp_def read)
  then obtain sorted where sorted: "js_sortE (valueCmp rt) positive = Some sorted" by blast
  have set: "set (take 3 sorted) \<subseteq> set positive"
    using js_sortE_set [OF sorted] set_take_subset [of 3 sorted] by simp
  have "mapE (\<lambda>v. Option.bind (getp v ''name'') (\<lambda>n. Option.bind (getp v ''value'')
            (\<lambda>x. Option.bind (callToFixed rt x 2) (\<lambda>fixed. Some (toStr rt n @ '': '' @ fixed)))))
          (take 3 sorted) \<noteq> None"
  proof (rule mapE_total)
    fix v
    assume "v \<in> set (take 3 sorted)"
    with set have v: "v \<in> set positive" by blast
    with sub have mem: "v \<in> set ?vs" by blast
    from pos v have "num_gt (toNum rt (field v ''value'')) (Fin 0)"
      by (auto simp: noNull_getp [OF nn mem])
    moreover from num mem have "numberOrAbsent (field v ''value'')"
      by (simp add: list_all_iff)
    ultimately have "callToFixed rt (field v ''value'') 2 \<noteq> None"
      by (simp add: positive_number)
    then show "Option.bind (getp v ''name'') (\<lambda>n. Option.bind (getp v ''value'')
            (\<lambda>x. Option.bind (callToFixed rt x 2) (\<lambda>fixed. Some (toStr rt n @ '': '' @ fixed)))) \<noteq> None"
      by (auto simp: noNull_getp [OF nn mem])
  qed
  then show ?thesis
    using assms(1,2) positive sorted
    by (auto simp: variablesRule_def getp_field Let_def)
qed

lemma total_constraints:
  assumes "ar_data r \<noteq> JUndefined" "ar_data r \<noteq> JNull"
    and nn: "noNullElements (field (ar_data r) ''constraints'')"
  shows "constraintsRule rt r st \<noteq> None"
proof -
  let ?cs = "elems (field (ar_data r) ''constraints'')"
  let ?binding = "\<lambda>c. Option.bind (getp c ''slack'')
      (\<lambda>slack. Some (slack = JNum (Fin 0) \<or> num_lt (num_abs (toNum rt slack)) (Fin 0.001)))"
  have "filterE ?binding ?cs \<noteq> None"
    by (rule filterE_total) (simp add: noNull_getp [OF nn])
  then obtain binding where binding: "filterE ?binding ?cs = Some binding" by blast
  from filterE_set [OF binding] have sub: "set binding \<subseteq> set ?cs" by auto
  have "getp c p = Some (field c p)" if "c \<in> set binding" for c p
    using that sub by (intro noNull_getp [OF nn]) blast
  then have "mapE (\<lambda>c. getp c ''name'') binding \<noteq> None"
    by (intro mapE_total) simp
  then show ?thesis
    using assms(1,2) binding
    by (auto simp: constraintsRule_def getp_field)
qed

lemma bind_total: "m \<noteq> None \<Longrightarrow> (\<And>x. f x \<noteq> None) \<Longrightarrow> Option.bind m f \<noteq> None"
  by (cases m) simp_all

lemma total_bodies:
  assumes "wellShaped (ar_data r)"
  shows "businessBody rt r st \<noteq> None" "forecastBody rt r st \<noteq> None"
    "optimizationBody rt r st \<noteq> None"
proof -
  from assms have nonnull: "ar_data r \<noteq> JUndefined" "ar_data r \<noteq> JNull"
    by (simp_all add: wellShaped_def)
  note rules = total_profit [OF nonnull] total_roi [OF nonnull] total_breakEven [OF nonnull]
    total_cost [OF nonnull] total_trend [OF nonnull] total_seasonality [OF nonnull]
    total_accuracy [OF nonnull] total_feasible [OF nonnull] total_variables [OF nonnull]
    total_constraints [OF nonnull] total_infeasible [OF nonnull]
  from assms have shape:
    "noNullElements (field (ar_data r) ''operationalCosts'')"
    "noNullElements (field (ar_data r) ''forecasted'')"
    "noNullElements (field (field (ar_data r) ''chart'') ''historical'')"
    "numberOrAbsent (field (field (ar_data r) ''accuracy'') ''mape'')"
    "numberOrAbsent (field (ar_data r) ''objectiveValue'')"
    "noNullElements (field (ar_data r) ''variables'')"
    "list_all (\<lambda>v. numberOrAbsent (field v ''value'')) (elems (field (ar_data r) ''variables''))"
    "noNullElements (field (ar_data r) ''constraints'')"
    by (simp_all add: wellShaped_def)
  show "businessBody rt r st \<noteq> None"
    unfolding businessBody_def
    by (intro bind_total rules(1-3) rules(4) [OF shape(1)])
  show "forecastBody rt r st \<noteq> None"
    unfolding forecastBody_def
    by (intro bind_total rules(5) [OF shape(2)] rules(6) [OF shape(3)] rules(7) [OF shape(4)])
  show "optimizationBody rt r st \<noteq> None"
  proof -
    have "Option.bind (feasibleRule rt r st)
            (\<lambda>st1. Option.bind (variablesRule rt r st1) (constraintsRule rt r)) \<noteq> None"
      by (intro bind_total rules(8) [OF shape(5)] rules(9) [OF shape(6,7)] rules(10) [OF shape(8)])
    with rules(11) nonnull show ?thesis
      by (simp add: optimizationBody_def getp_field)
  qed
qed


lemma set_recent: "set (take n (sortByRecency (filter P results))) \<subseteq> set results"
  using set_take_subset [of n "sortByRecency (filter P results)"]
  by (auto simp: sortByRecency_def set_js_sort)

lemma total_extractors:
  assumes "\<forall>r \<in> set results. wellShaped (ar_data r)"
  shows "extractBusinessRecommendations rt results k \<noteq> None"
    "extractForecastRecommendations rt results k \<noteq> None"
    "extractOptimizationRecommendations rt results k \<noteq> None"
proof -
  have shaped: "wellShaped (ar_data r)" if "r \<in> set (take n (sortByRecency (filter P results)))" for r n P
    using that assms set_recent by blast
  show "extractBusinessRecommendations rt results k \<noteq> None"
    unfolding extractBusinessRecommendations_def recentBusinessResults_def
    by (intro bind_total forEachE_total total_bodies shaped) simp_all
  show "extractForecastRecommendations rt results k \<noteq> None"
    unfolding extractForecastRecommendations_def recentForecasts_def
    by (intro bind_total forEachE_total total_bodies shaped) simp_all
  show "extractOptimizationRecommendations rt results k \<noteq> None"
    unfolding extractOptimizationRecommendations_def recentOptimizations_def
    by (intro bind_total forEachE_total total_bodies shaped) simp_all
qed

lemma total_generate:
  assumes "\<forall>r \<in> set (analysisResults input). wellShaped (ar_data r)"
  shows "generateRecommendations rt input \<noteq> None"
proof -
  let ?sorted = "take 10 (sortByRecency (analysisResults input))"
  have "set ?sorted \<subseteq> set (analysisResults input)"
    using set_take_subset [of 10 "sortByRecency (analysisResults input)"]
    by (auto simp: sortByRecency_def set_js_sort)
  with assms have shaped: "\<forall>r \<in> set ?sorted. wellShaped (ar_data r)" by blast
  note ex = total_extractors [OF shaped]
  obtain b k1 where b: "extractBusinessRecommendations rt ?sorted 0 = Some (b, k1)"
    using ex(1) [of rt 0] by fastforce
  obtain f k2 where f: "extractForecastRecommendations rt ?sorted k1 = Some (f, k2)"
    using ex(2) [of rt k1] by fastforce
  obtain ob k3 where ob: "extractOptimizationRecommendations rt ?sorted k2 = Some (ob, k3)"
    using ex(3) [of rt k2] by fastforce
  show ?thesis
    by (simp add: generateRecommendations_def Let_def b f ob split: prod.splits)
qed

lemma skipped_when_missing:
  "getp (ar_data r) ''profitMargin'' = Some JUndefined \<Longrightarrow> profitRule rt r st = Some st"
  "getp (ar_data r) ''roi'' = Some JUndefined \<Longrightarrow> roiRule rt r st = Some st"
  "getp (ar_data r) ''operationalCosts'' = Some JUndefined \<Longrightarrow> costRule rt r st = Some st"
  "getp (ar_data r) ''breakEvenUnits'' = Some JUndefined \<Longrightarrow> breakEvenRule rt r st = Some st"
  "getp (ar_data r) ''monthlySalesVolume'' = Some JUndefined \<Longrightarrow> breakEvenRule rt r st = Some st"
  "getp (ar_data r) ''forecasted'' = Some JUndefined \<Longrightarrow> trendRule rt r st = Some st"
  "getp (ar_data r) ''chart'' = Some JUndefined \<Longrightarrow> seasonalityRule rt r st = Some st"
  "getp (ar_data r) ''accuracy'' = Some JUndefined \<Longrightarrow> accuracyRule rt r st = Some st"
  "getp (ar_data r) ''feasible'' = Some JUndefined \<Longrightarrow> optimizationBody rt r st = Some st"
  "getp (ar_data r) ''variables'' = Some JUndefined \<Longrightarrow> variablesRule rt r st = Some st"
  "getp (ar_data r) ''constraints'' = Some JUndefined \<Longrightarrow> constraintsRule rt r st = Some st"
  by (cases "ar_data r";
      simp add: profitRule_def roiRule_def costRule_def breakEvenRule_def trendRule_def
        seasonalityRule_def accuracyRule_def optimizationBody_def variablesRule_def
        constraintsRule_def)+

lemma empty_scenario:
  "map_option (\<lambda>s. (rs_recommendations s, rs_summary s)) (generateRecommendations rt emptyInput)
     = Some ([], fallbackSummary)"
  by (simp add: generateRecommendations_def emptyInput_def addSeasonalRecommendations_def
      js_sort_def buildSummary_def Let_def)

text \<open>
  Claim C9, as stated, says that no input makes \<^verbatim>\<open>generateRecommendations\<close> fail, a
  wrong-shaped field only making its rule skip. The rules test their fields for presence
  and the arrays with \<^verbatim>\<open>Array.isArray\<close>, but not what the arrays hold, nor that what they
  print with \<^verbatim>\<open>toFixed\<close> is a number. An \<^verbatim>\<open>operationalCosts\<close> array that holds \<^verbatim>\<open>null\<close> passes
  the tests of the cost rule, and the read \<^verbatim>\<open>highestCost.amount\<close> raises a \<^verbatim>\<open>TypeError\<close> that
  nothing catches.
\<close>

theorem generate_raises_on_null_cost_counterexample:
  "generateRecommendations sampleRuntime
     \<lparr>userId = ''u1'',
      analysisResults =
        [analysis ''b1'' ''business_feasibility'' (JObj [(''operationalCosts'', JArr [JNull])]) None],
      chatHistory = [], currentSeason = None\<rparr> = None"
  by (simp add: generateRecommendations_def analysis_def extractBusinessRecommendations_def
      recentBusinessResults_def sortByRecency_def js_sort_def businessBody_def profitRule_def
      roiRule_def costRule_def)


text \<open>
  Claim C9, amended: \<^verbatim>\<open>generateRecommendations\<close> returns a set, for every runtime, on every
  input whose analysis payloads are well-shaped (\<open>wellShaped\<close>: not \<^verbatim>\<open>null\<close>, no \<^verbatim>\<open>null\<close>
  element in the arrays the rules walk through, numbers where \<^verbatim>\<open>toFixed\<close> is called, and no
  object that has a property named \<^verbatim>\<open>toString\<close>); a rule whose field is missing is skipped;
  and the input with no analyses, no chat and no season returns an empty list of
  recommendations and the fixed fallback summary.
\<close>

theorem generate_total_on_well_shaped:
  assumes "\<forall>a \<in> set (analysisResults input). wellShaped (ar_data a)"
  shows "(\<exists>result. generateRecommendations rt input = Some result)
    \<and> (getp (ar_data r) ''profitMargin'' = Some JUndefined \<longrightarrow> profitRule rt r st = Some st)
    \<and> (getp (ar_data r) ''roi'' = Some JUndefined \<longrightarrow> roiRule rt r st = Some st)
    \<and> (getp (ar_data r) ''operationalCosts'' = Some JUndefined \<longrightarrow> costRule rt r st = Some st)
    \<and> (getp (ar_data r) ''breakEvenUnits'' = Some JUndefined \<longrightarrow> breakEvenRule rt r st = Some st)
    \<and> (getp (ar_data r) ''monthlySalesVolume'' = Some JUndefined \<longrightarrow> breakEvenRule rt r st = Some st)
    \<and> (getp (ar_data r) ''forecasted'' = Some JUndefined \<longrightarrow> trendRule rt r st = Some st)
    \<and> (getp (ar_data r) ''chart'' = Some JUndefined \<longrightarrow> seasonalityRule rt r st = Some st)
    \<and> (getp (ar_data r) ''accuracy'' = Some JUndefined \<longrightarrow> accuracyRule rt r st = Some st)
    \<and> (getp (ar_data r) ''feasible'' = Some JUndefined \<longrightarrow> optimizationBody rt r st = Some st)
    \<and> (getp (ar_data r) ''variables'' = Some JUndefined \<longrightarrow> variablesRule rt r st = Some st)
    \<and> (getp (ar_data r) ''constraints'' = Some JUndefined \<longrightarrow> constraintsRule rt r st = Some st)
    \<and> map_option (\<lambda>s. (rs_recommendations s, rs_summary s)) (generateRecommendations rt emptyInput)
        = Some ([], fallbackSummary)"
  using total_generate [OF assms, of rt] skipped_when_missing [of r rt st] empty_scenario [of rt]
  by blast

theorem generate_total_on_well_shaped_witness:
  "list_all (\<lambda>a. wellShaped (ar_data a)) (analysisResults busyInput)
   \<and> (\<exists>result. generateRecommendations sampleRuntime busyInput = Some result)
   \<and> getp (JObj []) ''profitMargin'' = Some JUndefined
   \<and> businessBody sampleRuntime (analysis ''b0'' ''business_feasibility'' (JObj []) None) emptyExtraction
       = Some emptyExtraction
   \<and> forecastBody sampleRuntime (analysis ''b0'' ''business_feasibility'' (JObj []) None) emptyExtraction
       = Some emptyExtraction
   \<and> optimizationBody sampleRuntime (analysis ''b0'' ''business_feasibility'' (JObj []) None) emptyExtraction
       = Some emptyExtraction"
proof -
  have shaped: "list_all (\<lambda>a. wellShaped (ar_data a)) (analysisResults busyInput)"
    by (simp add: busyInput_def analysis_def profitData_def wellShaped_def field_def
        noNullElements_def)
  then have "\<forall>a \<in> set (analysisResults busyInput). wellShaped (ar_data a)"
    by (simp add: list_all_iff)
  from generate_total_on_well_shaped
         [OF this, of sampleRuntime "analysis ''b0'' ''business_feasibility'' (JObj []) None" emptyExtraction]
  show ?thesis
    using shaped by (simp add: analysis_def businessBody_def forecastBody_def)
qed

end
